theory Spec2Isabelle
  imports Main "HOL-Library.Word"
begin

section \<open>Externally blocked detection (external\_blocked.c)\<close>

text \<open>
  The two registries \<^verbatim>\<open>blocked_IP_v4\<close> and \<^verbatim>\<open>blocked_IP_v6\<close> are arrays of
  \<^verbatim>\<open>maxIPs\<close> string pointers. A slot is \<open>None\<close> when the pointer is NULL.
  The two calls into the C library are parameters of the model:
  \<^verbatim>\<open>inet_pton(AF_INET, addr, _) == 1\<close>, \<^verbatim>\<open>inet_pton(AF_INET6, addr, _) == 1\<close>
  and whether \<^verbatim>\<open>strdup(addr)\<close> returns a copy rather than NULL.
\<close>

definition maxIPs :: nat where
  "maxIPs = 12"

type_synonym ip_list = "string option list"

record blocked_IPs =
  blocked_IP_v4 :: ip_list
  blocked_IP_v6 :: ip_list

record libc =
  inet_pton4 :: "string \<Rightarrow> bool"
  inet_pton6 :: "string \<Rightarrow> bool"
  strdup_ok :: "string \<Rightarrow> bool"

definition strdup :: "libc \<Rightarrow> string \<Rightarrow> string option" where
  "strdup L addr = (if strdup_ok L addr then Some addr else None)"

text \<open>
  The loop of \<^verbatim>\<open>add_blocked_IP\<close>, from index \<open>i\<close> on:
  \<^verbatim>\<open>for(int i=0; i < maxIPs; i++) if(list[i] == NULL) { list[i] = strdup(addr); return (list[i] != NULL); }\<close>
  and \<^verbatim>\<open>return false\<close> after the loop.
\<close>

function add_loop :: "libc \<Rightarrow> string \<Rightarrow> ip_list \<Rightarrow> nat \<Rightarrow> ip_list \<times> bool" where
  "add_loop L addr list i =
     (if i < maxIPs then
        (if list ! i = None then
           (let list' = list[i := strdup L addr] in (list', list' ! i \<noteq> None))
         else add_loop L addr list (Suc i))
      else (list, False))"
  by pat_completeness auto
termination
  by (relation "measure (\<lambda>(L, addr, list, i). maxIPs - i)") auto

definition add_blocked_IP ::
  "libc \<Rightarrow> blocked_IPs \<Rightarrow> string \<Rightarrow> 8 word \<Rightarrow> blocked_IPs \<times> bool" where
  "add_blocked_IP L reg addr type =
     (if type = 4 then
        (if \<not> inet_pton4 L addr then (reg, False)
         else (let (list', ok) = add_loop L addr (blocked_IP_v4 reg) 0
               in (reg\<lparr>blocked_IP_v4 := list'\<rparr>, ok)))
      else if type = 6 then
        (if \<not> inet_pton6 L addr then (reg, False)
         else (let (list', ok) = add_loop L addr (blocked_IP_v6 reg) 0
               in (reg\<lparr>blocked_IP_v6 := list'\<rparr>, ok)))
      else (reg, False))"

text \<open>\<^verbatim>\<open>init_blocked_IP\<close>: both arrays are allocated zeroed, then seeded in source order.\<close>

definition seed_IPs :: "(string \<times> 8 word) list" where
  "seed_IPs =
    [(''0.0.0.0'', 4), (''::'', 6),
     (''146.112.61.104'', 4), (''::ffff:146.112.61.104'', 6),
     (''146.112.61.105'', 4), (''::ffff:146.112.61.105'', 6),
     (''146.112.61.106'', 4), (''::ffff:146.112.61.106'', 6),
     (''146.112.61.107'', 4), (''::ffff:146.112.61.107'', 6),
     (''146.112.61.108'', 4), (''::ffff:146.112.61.108'', 6),
     (''146.112.61.109'', 4), (''::ffff:146.112.61.109'', 6),
     (''146.112.61.110'', 4), (''::ffff:146.112.61.110'', 6)]"

definition init_blocked_IP :: "libc \<Rightarrow> blocked_IPs" where
  "init_blocked_IP L =
     foldl (\<lambda>reg (addr, type). fst (add_blocked_IP L reg addr type))
       \<lparr>blocked_IP_v4 = replicate maxIPs None, blocked_IP_v6 = replicate maxIPs None\<rparr>
       seed_IPs"

text \<open>
  The comparison loop of \<^verbatim>\<open>is_blocked_IP\<close>, from index \<open>i\<close> on: it stops at the
  first NULL slot and returns true at the first slot equal to \<open>addr\<close>.
\<close>

function scan_loop :: "string \<Rightarrow> ip_list \<Rightarrow> nat \<Rightarrow> bool" where
  "scan_loop addr list i =
     (if i < maxIPs then
        (case list ! i of
           None \<Rightarrow> False
         | Some entry \<Rightarrow> if addr = entry then True else scan_loop addr list (Suc i))
      else False)"
  by pat_completeness auto
termination
  by (relation "measure (\<lambda>(addr, list, i). maxIPs - i)") auto

text \<open>
  \<^verbatim>\<open>is_blocked_IP\<close>. The argument is \<open>None\<close> for a NULL pointer. In the
  \<^verbatim>\<open>switch\<close>, \<^verbatim>\<open>case 4\<close> ends with \<^verbatim>\<open>break\<close>; \<^verbatim>\<open>case 6\<close> assigns the list and
  has no \<^verbatim>\<open>break\<close>, so control continues into \<^verbatim>\<open>default\<close>, which logs and
  returns false.
\<close>

definition is_blocked_IP :: "blocked_IPs \<Rightarrow> string option \<Rightarrow> 8 word \<Rightarrow> bool" where
  "is_blocked_IP reg addr type =
     (case addr of
        None \<Rightarrow> False
      | Some a \<Rightarrow>
          if type = 4 then scan_loop a (blocked_IP_v4 reg) 0
          else if type = 6 then (let list = blocked_IP_v6 reg in False)
          else False)"

text \<open>The libc of the examples: every address is accepted and every copy succeeds.\<close>

definition libc_ok :: libc where
  "libc_ok = \<lparr>inet_pton4 = (\<lambda>_. True), inet_pton6 = (\<lambda>_. True), strdup_ok = (\<lambda>_. True)\<rparr>"

text \<open>
  The index of the first NULL slot (the array length when there is none), and the
  invariant of a registry: it has \<open>maxIPs\<close> slots and every slot from the first NULL
  slot on is NULL, so that the non-NULL slots are a prefix of the array.
\<close>

definition first_empty :: "ip_list \<Rightarrow> nat" where
  "first_empty list = length (takeWhile (\<lambda>x. x \<noteq> None) list)"

definition contiguous :: "ip_list \<Rightarrow> bool" where
  "contiguous list =
     (length list = maxIPs \<and> list_all (\<lambda>x. x = None) (drop (first_empty list) list))"

text \<open>
  An array holds exactly the addresses \<open>r\<close>: they fill its first slots, in order, and
  every other of its \<open>maxIPs\<close> slots is NULL.
\<close>

definition holds_exactly :: "ip_list \<Rightarrow> string list \<Rightarrow> bool" where
  "holds_exactly list r =
     (length r \<le> maxIPs \<and> list = map Some r @ replicate (maxIPs - length r) None)"

text \<open>
  A call of \<^verbatim>\<open>add_blocked_IP\<close> on a registry kept together with the addresses whose
  registration returned true so far, per family; the registry with no registration
  (the two zeroed arrays); the registry after \<^verbatim>\<open>init_blocked_IP\<close>; and the registry
  after \<^verbatim>\<open>init_blocked_IP\<close> followed by any sequence of calls of \<^verbatim>\<open>add_blocked_IP\<close>.
\<close>

definition add_recorded ::
  "libc \<Rightarrow> blocked_IPs \<times> string list \<times> string list \<Rightarrow> string \<times> 8 word \<Rightarrow>
   blocked_IPs \<times> string list \<times> string list" where
  "add_recorded L state call =
     (case state of (reg, r4, r6) \<Rightarrow>
        (case call of (addr, type) \<Rightarrow>
           (case add_blocked_IP L reg addr type of (reg', ok) \<Rightarrow>
              (reg',
               if ok \<and> type = 4 then r4 @ [addr] else r4,
               if ok \<and> type = 6 then r6 @ [addr] else r6))))"

definition nothing_recorded :: "blocked_IPs \<times> string list \<times> string list" where
  "nothing_recorded =
     (\<lparr>blocked_IP_v4 = replicate maxIPs None, blocked_IP_v6 = replicate maxIPs None\<rparr>, [], [])"

definition init_recorded :: "libc \<Rightarrow> blocked_IPs \<times> string list \<times> string list" where
  "init_recorded L = foldl (add_recorded L) nothing_recorded seed_IPs"

definition registry_after ::
  "libc \<Rightarrow> (string \<times> 8 word) list \<Rightarrow> blocked_IPs \<times> string list \<times> string list" where
  "registry_after L calls = foldl (add_recorded L) (init_recorded L) calls"

text \<open>
  What is kept together with the registry is right: each array holds exactly the
  addresses recorded for its family.
\<close>

definition registered :: "blocked_IPs \<times> string list \<times> string list \<Rightarrow> bool" where
  "registered state =
     (case state of (reg, r4, r6) \<Rightarrow>
        holds_exactly (blocked_IP_v4 reg) r4 \<and> holds_exactly (blocked_IP_v6 reg) r6)"

section \<open>Gravity database routines (gravity-db.c)\<close>

subsection \<open>The storage engine and the other collaborators\<close>

text \<open>
  SQLite, the regex subsystem, the process identity and the client counter are outside
  this file. They are modelled by an environment: the table contents and, for every
  native call that can fail, the result code it gives. \<open>SQLITE_ERROR\<close> stands for every
  result code other than OK, ROW, DONE and BUSY. Memory allocation by \<^verbatim>\<open>strdup\<close> and by
  the statement vectors is taken to succeed; \<^verbatim>\<open>asprintf\<close> may fail.
\<close>

type_synonym pid = nat

datatype rc = SQLITE_OK | SQLITE_ROW | SQLITE_DONE | SQLITE_BUSY | SQLITE_ERROR

text \<open>A connection remembers the process in which \<^verbatim>\<open>sqlite3_open_v2\<close> created it.\<close>

datatype conn = Conn pid

text \<open>
  The SQL texts the file builds, one constructor per text:
  \<^item> \<open>Q_audit\<close>: the \<^verbatim>\<open>SELECT EXISTS(... FROM domain_audit WHERE matcher = domain)\<close> of \<^verbatim>\<open>gravityDB_open\<close>;
  \<^item> \<open>Q_exists table groups\<close>: \<^verbatim>\<open>SELECT EXISTS(SELECT domain from %s WHERE domain = ? AND group_id IN (%s));\<close>
  \<^item> \<open>Q_client_count ip\<close>: \<^verbatim>\<open>SELECT COUNT(*) FROM client WHERE subnet_match(ip,'%s') = 1;\<close>
  \<^item> \<open>Q_client_groups ip\<close>: \<^verbatim>\<open>SELECT GROUP_CONCAT(group_id) FROM client_by_group WHERE client_id = (SELECT id FROM client WHERE subnet_match(ip,'%s') = 1 LIMIT 1);\<close>
  \<^item> \<open>Q_table table\<close>: \<^verbatim>\<open>SELECT domain, id FROM %s GROUP BY id\<close>
  \<^item> \<open>Q_count_distinct table\<close>: \<^verbatim>\<open>SELECT COUNT(DISTINCT domain) FROM %s\<close>
  \<^item> \<open>Q_gravity_count\<close>: \<^verbatim>\<open>SELECT value FROM info WHERE property = 'gravity_count';\<close>
\<close>

datatype query =
    Q_audit
  | Q_exists string string
  | Q_client_count string
  | Q_client_groups string
  | Q_table string
  | Q_count_distinct string
  | Q_gravity_count

datatype stmt = Stmt conn query

fun stmt_query :: "stmt \<Rightarrow> query" where
  "stmt_query (Stmt c q) = q"

datatype sqlval = SQL_NULL | SQL_INT int | SQL_TEXT string

text \<open>
  Modelled from the spec: the list type argument of
  \<^verbatim>\<open>match_regex(domain, clientID, listType)\<close>; regex\_r.h, which declares it, is not
  among the sources.
\<close>

datatype regex_type = REGEX_BLACKLIST | REGEX_WHITELIST

text \<open>
  The tables of the list database that the queries read: \<open>client\<close> rows are
  (id, ip), \<open>client_by_group\<close> rows are (client\_id, group\_id), a view row is
  (domain, id, group\_id). \<open>subnet_match d ip clientip\<close> is the custom SQL function
  \<^verbatim>\<open>subnet_match(ip,'clientip') = 1\<close>.
\<close>

record database =
  tbl_client :: "(int \<times> string) list"
  tbl_client_by_group :: "(int \<times> int) list"
  views :: "string \<Rightarrow> (string \<times> int \<times> int) list"
  tbl_domain_audit :: "string list"
  info_gravity_count :: "int option"
  subnet_match :: "string \<Rightarrow> string \<Rightarrow> bool"

text \<open>
  The environment of one call: \<open>getpid\<close> is the calling process, \<open>stat_ok\<close> tells
  whether \<^verbatim>\<open>stat(FTLfiles.gravity_db)\<close> finds the file, \<open>open_rc\<close> and \<open>exec_rc\<close> are
  the results of \<^verbatim>\<open>sqlite3_open_v2\<close> and of the \<^verbatim>\<open>PRAGMA\<close>, \<open>prepare_rc\<close> and
  \<open>bind_rc\<close> those of preparing a text and of binding a domain, \<open>step_fault\<close> the
  result code of a step that does not run the query (busy, error), \<open>asprintf_ok\<close>
  whether the text of a query can be allocated, \<open>clients\<close> is \<^verbatim>\<open>counters->clients\<close>
  and \<open>match_regex\<close> the function of the regex subsystem.
\<close>

record env =
  getpid :: pid
  stat_ok :: bool
  open_rc :: rc
  exec_rc :: rc
  prepare_rc :: "query \<Rightarrow> rc"
  bind_rc :: "stmt \<Rightarrow> string \<Rightarrow> rc"
  step_fault :: "stmt \<Rightarrow> rc option"
  asprintf_ok :: "query \<Rightarrow> bool"
  clients :: nat
  match_regex :: "string \<Rightarrow> nat \<Rightarrow> regex_type \<Rightarrow> int"
  db :: database

text \<open>
  Modelled from the spec: a client is identified by its IP address in string form.
  The structure is declared in datastructure.h, which is not among the sources;
  \<^verbatim>\<open>getstr(client->ippos)\<close> is the only part of a client that gravity-db.c reads.
\<close>

record clientsData =
  client_ip :: string

subsection \<open>Decimal text of group identifiers\<close>

fun show_nat :: "nat \<Rightarrow> string" where
  "show_nat n =
     (if n < 10 then [char_of (48 + n)]
      else show_nat (n div 10) @ [char_of (48 + n mod 10)])"

definition show_int :: "int \<Rightarrow> string" where
  "show_int i = (if i < 0 then CHR ''-'' # show_nat (nat (- i)) else show_nat (nat i))"

text \<open>\<^verbatim>\<open>GROUP_CONCAT(group_id)\<close>: the values joined by commas.\<close>

fun group_concat :: "int list \<Rightarrow> string" where
  "group_concat [] = []"
| "group_concat [g] = show_int g"
| "group_concat (g # gs) = show_int g @ CHR '','' # group_concat gs"

fun split_commas :: "string \<Rightarrow> string \<Rightarrow> string list" where
  "split_commas acc [] = [rev acc]"
| "split_commas acc (c # cs) =
     (if c = CHR '','' then rev acc # split_commas [] cs else split_commas (c # acc) cs)"

definition is_digit :: "char \<Rightarrow> bool" where
  "is_digit c = (48 \<le> (of_char c :: nat) \<and> (of_char c :: nat) \<le> 57)"

definition parse_nat :: "string \<Rightarrow> nat" where
  "parse_nat s = foldl (\<lambda>n c. 10 * n + (of_char c - 48)) 0 (takeWhile is_digit s)"

definition parse_int :: "string \<Rightarrow> int" where
  "parse_int s =
     (case s of
        [] \<Rightarrow> 0
      | c # cs \<Rightarrow> if c = CHR ''-'' then - int (parse_nat cs) else int (parse_nat s))"

text \<open>The integers of the list spliced into \<^verbatim>\<open>group_id IN (%s)\<close>; the empty text is the empty list.\<close>

definition parse_groups :: "string \<Rightarrow> int list" where
  "parse_groups groups = (if groups = [] then [] else map parse_int (split_commas [] groups))"

subsection \<open>What the queries return\<close>

text \<open>
  The two-argument SQL function \<^verbatim>\<open>substr(X, Y)\<close>: all characters from the Y-th on;
  a negative Y counts from the right, and reaches at most the start of X.
\<close>

definition sql_substr :: "string \<Rightarrow> int \<Rightarrow> string" where
  "sql_substr x y =
     (if y < 0 then (if nat (- y) \<ge> length x then x else drop (length x - nat (- y)) x)
      else if y = 0 then x
      else drop (nat y - 1) x)"

text \<open>
  The \<^verbatim>\<open>matcher\<close> column of the audit query:
  \<^verbatim>\<open>CASE WHEN substr(domain, 1, 1) = '*' THEN '*' || substr(:input, - length(domain) + 1) ELSE :input END\<close>
\<close>

definition audit_matcher :: "string \<Rightarrow> string \<Rightarrow> string" where
  "audit_matcher domain input =
     (if take 1 domain = ''*''
      then ''*'' @ sql_substr input (- int (length domain) + 1)
      else input)"

text \<open>
  The rows of \<^verbatim>\<open>client\<close> selected by \<^verbatim>\<open>WHERE subnet_match(ip,'%s') = 1\<close>, in table
  order, and the \<^verbatim>\<open>group_id\<close> values of the \<^verbatim>\<open>client_by_group\<close> rows of one client.
\<close>

definition matching_clients :: "database \<Rightarrow> string \<Rightarrow> (int \<times> string) list" where
  "matching_clients d ip = filter (\<lambda>(cid, cip). subnet_match d cip ip) (tbl_client d)"

definition groups_of_client :: "database \<Rightarrow> int \<Rightarrow> int list" where
  "groups_of_client d cid =
     map snd (filter (\<lambda>(client_id, group_id). client_id = cid) (tbl_client_by_group d))"

text \<open>
  The first \<^verbatim>\<open>sqlite3_step\<close> of a statement on a healthy database, with the value of
  its column 0. \<open>bound\<close> is the text bound to parameter 1, if any.
\<close>

fun run_query :: "database \<Rightarrow> query \<Rightarrow> string option \<Rightarrow> rc \<times> sqlval" where
  "run_query d Q_audit bound =
     (case bound of
        None \<Rightarrow> (SQLITE_ROW, SQL_INT 0)
      | Some input \<Rightarrow>
          (SQLITE_ROW,
           SQL_INT (if list_ex (\<lambda>domain. audit_matcher domain input = domain) (tbl_domain_audit d)
                then 1 else 0)))"
| "run_query d (Q_exists table groups) bound =
     (SQLITE_ROW,
      SQL_INT (if list_ex (\<lambda>(domain, rid, group_id).
                   Some domain = bound \<and> group_id \<in> set (parse_groups groups))
                (views d table)
           then 1 else 0))"
| "run_query d (Q_client_count ip) bound =
     (SQLITE_ROW, SQL_INT (int (length (matching_clients d ip))))"
| "run_query d (Q_client_groups ip) bound =
     (case matching_clients d ip of
        [] \<Rightarrow> (SQLITE_ROW, SQL_NULL)
      | (cid, cip) # _ \<Rightarrow>
          (case groups_of_client d cid of
             [] \<Rightarrow> (SQLITE_ROW, SQL_NULL)
           | g # gs \<Rightarrow> (SQLITE_ROW, SQL_TEXT (group_concat (g # gs)))))"
| "run_query d (Q_table table) bound =
     (case views d table of
        [] \<Rightarrow> (SQLITE_DONE, SQL_NULL)
      | (domain, rid, group_id) # _ \<Rightarrow> (SQLITE_ROW, SQL_TEXT domain))"
| "run_query d (Q_count_distinct table) bound =
     (SQLITE_ROW, SQL_INT (int (length (remdups (map fst (views d table))))))"
| "run_query d Q_gravity_count bound =
     (case info_gravity_count d of
        None \<Rightarrow> (SQLITE_DONE, SQL_NULL)
      | Some n \<Rightarrow> (SQLITE_ROW, SQL_INT n))"

text \<open>
  \<^verbatim>\<open>sqlite3_column_int\<close> returns a C \<^verbatim>\<open>int\<close>: the low 32 bits of the integer value of
  the column, read as a signed number.
\<close>

definition sqlite3_column_int :: "sqlval \<Rightarrow> int" where
  "sqlite3_column_int v =
     sint (word_of_int (case v of SQL_NULL \<Rightarrow> 0 | SQL_INT i \<Rightarrow> i | SQL_TEXT s \<Rightarrow> parse_int s)
             :: 32 word)"

definition sqlite3_column_text :: "sqlval \<Rightarrow> string option" where
  "sqlite3_column_text v = (case v of SQL_NULL \<Rightarrow> None | SQL_INT i \<Rightarrow> Some (show_int i) | SQL_TEXT s \<Rightarrow> Some s)"

text \<open>
  \<^verbatim>\<open>sqlite3_prepare_v2\<close> gives a statement on success and NULL otherwise; a NULL
  connection or a NULL text is a misuse. \<^verbatim>\<open>sqlite3_bind_text\<close> on a NULL statement is
  a misuse. \<^verbatim>\<open>sqlite3_step\<close> gives the environment's fault if there is one, and the
  query's row otherwise.
\<close>

definition sqlite3_prepare_v2 :: "env \<Rightarrow> conn option \<Rightarrow> query option \<Rightarrow> rc \<times> stmt option" where
  "sqlite3_prepare_v2 e c q =
     (case c of
        None \<Rightarrow> (SQLITE_ERROR, None)
      | Some c' \<Rightarrow>
          (case q of
             None \<Rightarrow> (SQLITE_ERROR, None)
           | Some q' \<Rightarrow>
               if prepare_rc e q' = SQLITE_OK then (SQLITE_OK, Some (Stmt c' q'))
               else (prepare_rc e q', None)))"

definition sqlite3_bind_text :: "env \<Rightarrow> stmt option \<Rightarrow> string \<Rightarrow> rc" where
  "sqlite3_bind_text e s domain = (case s of None \<Rightarrow> SQLITE_ERROR | Some s' \<Rightarrow> bind_rc e s' domain)"

definition sqlite3_step :: "env \<Rightarrow> stmt option \<Rightarrow> string option \<Rightarrow> rc \<times> sqlval" where
  "sqlite3_step e s bound =
     (case s of
        None \<Rightarrow> (SQLITE_ERROR, SQL_NULL)
      | Some s' \<Rightarrow>
          (case step_fault e s' of
             Some r \<Rightarrow> (r, SQL_NULL)
           | None \<Rightarrow> run_query (db e) (stmt_query s') bound))"

subsection \<open>The state of the file\<close>

text \<open>
  The file-level variables. A statement vector pointer is \<open>None\<close> when NULL; a slot of a
  vector is \<open>None\<close> when it holds no statement. \<open>trace\<close> is not in the source: it
  records, in order, every call into SQLite and into the regex subsystem.
\<close>

datatype event =
    E_open pid
  | E_exec conn
  | E_busy_timeout conn
  | E_prepare "conn option" "query option"
  | E_bind "stmt option" string
  | E_step "stmt option"
  | E_reset "stmt option"
  | E_clear_bindings "stmt option"
  | E_finalize "stmt option"
  | E_close "conn option"
  | E_match_regex string nat regex_type

type_synonym sqlite3_stmt_vec = "stmt option list"

record gravity_state =
  whitelist_stmt :: "sqlite3_stmt_vec option"
  gravity_stmt :: "sqlite3_stmt_vec option"
  blacklist_stmt :: "sqlite3_stmt_vec option"
  gravity_db :: "conn option"
  table_stmt :: "stmt option"
  auditlist_stmt :: "stmt option"
  gravityDB_opened :: bool
  main_process :: pid
  this_process :: pid
  trace :: "event list"

definition initial_state :: gravity_state where
  "initial_state =
     \<lparr>whitelist_stmt = None, gravity_stmt = None, blacklist_stmt = None, gravity_db = None,
      table_stmt = None, auditlist_stmt = None, gravityDB_opened = False,
      main_process = 0, this_process = 0, trace = []\<rparr>"

definition emit :: "event \<Rightarrow> gravity_state \<Rightarrow> gravity_state" where
  "emit ev st = st\<lparr>trace := trace st @ [ev]\<rparr>"

text \<open>A NULL pointer that is dereferenced ends the process.\<close>

datatype error = NullDeref

text \<open>
  Modelled from the spec: the statement vectors of vector.h, which is not among the
  sources. The spec describes growable vectors indexed by clientID, sized to the client
  count, in which growing preserves the existing entries: a new vector holds no
  statement, reading a slot beyond the size gives no statement, and writing one grows
  the vector.
\<close>

definition new_sqlite3_stmt_vec :: "nat \<Rightarrow> sqlite3_stmt_vec" where
  "new_sqlite3_stmt_vec n = replicate n None"

definition vec_get :: "sqlite3_stmt_vec \<Rightarrow> nat \<Rightarrow> stmt option" where
  "vec_get v i = (if i < length v then v ! i else None)"

definition vec_set :: "sqlite3_stmt_vec \<Rightarrow> nat \<Rightarrow> stmt option \<Rightarrow> sqlite3_stmt_vec" where
  "vec_set v i s =
     (if i < length v then v[i := s] else v @ replicate (i - length v) None @ [s])"

text \<open>Table indices of gravity-db.h and the table names of gravity-db.c.\<close>

definition GRAVITY_TABLE :: "8 word" where
  "GRAVITY_TABLE = 0"

definition UNKNOWN_TABLE :: "8 word" where
  "UNKNOWN_TABLE = 5"

definition tablename :: "string list" where
  "tablename = [''vw_gravity'', ''vw_blacklist'', ''vw_whitelist'', ''vw_regex_blacklist'',
                ''vw_regex_whitelist'', '''']"

subsection \<open>Closing and opening\<close>

text \<open>
  \<^verbatim>\<open>gravityDB_finalize_client_statements\<close>: each of the three accesses goes through
  the vector pointer (\<^verbatim>\<open>whitelist_stmt->get(...)\<close>), which must not be NULL.
\<close>

definition gravityDB_finalize_client_statements :: "nat \<Rightarrow> gravity_state \<Rightarrow> error + gravity_state" where
  "gravityDB_finalize_client_statements clientID st =
     (case whitelist_stmt st of
        None \<Rightarrow> Inl NullDeref
      | Some wv \<Rightarrow>
          let st1 = (if vec_get wv clientID \<noteq> None
                     then (emit (E_finalize (vec_get wv clientID)) st)
                            \<lparr>whitelist_stmt := Some (vec_set wv clientID None)\<rparr>
                     else st)
          in (case blacklist_stmt st1 of
                None \<Rightarrow> Inl NullDeref
              | Some bv \<Rightarrow>
                  let st2 = (if vec_get bv clientID \<noteq> None
                             then (emit (E_finalize (vec_get bv clientID)) st1)
                                    \<lparr>blacklist_stmt := Some (vec_set bv clientID None)\<rparr>
                             else st1)
                  in (case gravity_stmt st2 of
                        None \<Rightarrow> Inl NullDeref
                      | Some gv \<Rightarrow>
                          Inr (if vec_get gv clientID \<noteq> None
                               then (emit (E_finalize (vec_get gv clientID)) st2)
                                      \<lparr>gravity_stmt := Some (vec_set gv clientID None)\<rparr>
                               else st2))))"

text \<open>The loop \<^verbatim>\<open>for(clientID = 0; clientID < counters->clients; clientID++)\<close> of \<^verbatim>\<open>gravityDB_close\<close>.\<close>

fun finalize_clients :: "nat list \<Rightarrow> gravity_state \<Rightarrow> error + gravity_state" where
  "finalize_clients [] st = Inr st"
| "finalize_clients (clientID # rest) st =
     (case gravityDB_finalize_client_statements clientID st of
        Inl err \<Rightarrow> Inl err
      | Inr st' \<Rightarrow> finalize_clients rest st')"

definition gravityDB_close :: "env \<Rightarrow> gravity_state \<Rightarrow> error + gravity_state" where
  "gravityDB_close e st =
     (if \<not> gravityDB_opened st then Inr st
      else
        (case finalize_clients [0..<clients e] st of
           Inl err \<Rightarrow> Inl err
         | Inr st1 \<Rightarrow>
             let st2 = st1\<lparr>whitelist_stmt := None, blacklist_stmt := None, gravity_stmt := None\<rparr>;
                 st3 = (emit (E_finalize (auditlist_stmt st2)) st2)\<lparr>auditlist_stmt := None\<rparr>;
                 st4 = (emit (E_close (gravity_db st3)) st3)
                         \<lparr>gravity_db := None, gravityDB_opened := False\<rparr>
             in Inr st4))"

text \<open>
  A call of \<^verbatim>\<open>gravityDB_close()\<close> followed by \<^verbatim>\<open>return false\<close>, as it appears on
  the failure paths.
\<close>

definition close_return_false :: "env \<Rightarrow> gravity_state \<Rightarrow> error + (bool \<times> gravity_state)" where
  "close_return_false e st =
     (case gravityDB_close e st of Inl err \<Rightarrow> Inl err | Inr st' \<Rightarrow> Inr (False, st'))"

text \<open>
  \<^verbatim>\<open>gravityDB_open\<close>. \<^verbatim>\<open>sqlite3_open_v2\<close> stores a connection handle also when it
  fails. The results of the two \<^verbatim>\<open>sqlite3_busy_timeout\<close> calls do not change the control flow.
\<close>

definition gravityDB_open :: "env \<Rightarrow> gravity_state \<Rightarrow> error + (bool \<times> gravity_state)" where
  "gravityDB_open e st =
     (if \<not> stat_ok e then Inr (False, st)
      else if gravityDB_opened st \<and> gravity_db st \<noteq> None then Inr (True, st)
      else
        let st1 = (emit (E_open (getpid e)) st)\<lparr>gravity_db := Some (Conn (getpid e))\<rparr>
        in if open_rc e \<noteq> SQLITE_OK then close_return_false e st1
           else
             let st2 = st1\<lparr>gravityDB_opened := True\<rparr>;
                 st3 = emit (E_exec (Conn (getpid e))) st2
             in if exec_rc e \<noteq> SQLITE_OK then close_return_false e st3
                else
                  let (rc, s) = sqlite3_prepare_v2 e (gravity_db st3) (Some Q_audit);
                      st4 = (emit (E_prepare (gravity_db st3) (Some Q_audit)) st3)
                              \<lparr>auditlist_stmt := s\<rparr>
                  in if rc \<noteq> SQLITE_OK then close_return_false e st4
                     else
                       let st5 = emit (E_busy_timeout (Conn (getpid e))) st4;
                           st6 = st5\<lparr>whitelist_stmt :=
                                        (if whitelist_stmt st5 = None
                                         then Some (new_sqlite3_stmt_vec (clients e))
                                         else whitelist_stmt st5)\<rparr>;
                           st7 = st6\<lparr>blacklist_stmt :=
                                        (if blacklist_stmt st6 = None
                                         then Some (new_sqlite3_stmt_vec (clients e))
                                         else blacklist_stmt st6)\<rparr>;
                           st8 = st7\<lparr>gravity_stmt :=
                                        (if gravity_stmt st7 = None
                                         then Some (new_sqlite3_stmt_vec (clients e))
                                         else gravity_stmt st7)\<rparr>;
                           st9 = emit (E_busy_timeout (Conn (getpid e))) st8
                       in Inr (True, st9))"

text \<open>
  The guard \<^verbatim>\<open>if(!gravityDB_opened && !gravityDB_open())\<close> that opens several
  functions: the boolean is false exactly when the guarded branch is taken.
\<close>

definition opened_or_open :: "env \<Rightarrow> gravity_state \<Rightarrow> error + (bool \<times> gravity_state)" where
  "opened_or_open e st = (if gravityDB_opened st then Inr (True, st) else gravityDB_open e st)"

definition gravityDB_check_fork :: "env \<Rightarrow> gravity_state \<Rightarrow> error + gravity_state" where
  "gravityDB_check_fork e st =
     (let st1 = (if main_process st = 0
                 then st\<lparr>main_process := getpid e, this_process := getpid e\<rparr>
                 else st)
      in if this_process st1 = getpid e then Inr st1
         else
           (case gravityDB_open e
                   (st1\<lparr>this_process := getpid e, gravityDB_opened := False, gravity_db := None,
                        whitelist_stmt := None, blacklist_stmt := None, gravity_stmt := None\<rparr>) of
              Inl err \<Rightarrow> Inl err
            | Inr (ok, st2) \<Rightarrow> Inr st2))"

definition gravityDB_finalizeTable :: "gravity_state \<Rightarrow> gravity_state" where
  "gravityDB_finalizeTable st =
     (if \<not> gravityDB_opened st then st
      else (emit (E_finalize (table_stmt st)) st)\<lparr>table_stmt := None\<rparr>)"

subsection \<open>Groups of a client and the per-client statements\<close>

definition get_client_querystr :: "env \<Rightarrow> string \<Rightarrow> string \<Rightarrow> query option" where
  "get_client_querystr e table groups =
     (if \<not> asprintf_ok e (Q_exists table groups) then None
      else Some (Q_exists table groups))"

text \<open>
  The second query of \<^verbatim>\<open>get_client_groupids\<close>, run when the first found the client
  in the client table. The result is \<open>None\<close> when the function returns false, and
  when it returns true the string stored in \<^verbatim>\<open>*groups\<close>.
\<close>

definition get_client_groupids_assoc ::
  "env \<Rightarrow> gravity_state \<Rightarrow> string \<Rightarrow> string option \<times> gravity_state" where
  "get_client_groupids_assoc e st ip =
     (if \<not> asprintf_ok e (Q_client_groups ip) then (None, st)
      else
        let (rc, s) = sqlite3_prepare_v2 e (gravity_db st) (Some (Q_client_groups ip));
            st1 = (emit (E_prepare (gravity_db st) (Some (Q_client_groups ip))) st)
                    \<lparr>table_stmt := s\<rparr>
        in if rc \<noteq> SQLITE_OK then (None, emit (E_finalize (table_stmt st1)) st1)
           else
             let (rc2, v) = sqlite3_step e (table_stmt st1) None;
                 st2 = emit (E_step (table_stmt st1)) st1
             in if rc2 = SQLITE_ROW then
                  (case sqlite3_column_text v of
                     Some result \<Rightarrow> (Some result, gravityDB_finalizeTable st2)
                   | None \<Rightarrow> (Some '''', gravityDB_finalizeTable st2))
                else if rc2 = SQLITE_DONE then (Some '''', gravityDB_finalizeTable st2)
                else (None, gravityDB_finalizeTable st2))"

text \<open>
  \<^verbatim>\<open>get_client_groupids\<close>, with the same encoding of the result: the first query
  counts the matching client records, and no record means the group list \<open>''0''\<close>.
\<close>

definition get_client_groupids ::
  "env \<Rightarrow> gravity_state \<Rightarrow> clientsData \<Rightarrow> error + (string option \<times> gravity_state)" where
  "get_client_groupids e st client =
     (let ip = client_ip client
      in case opened_or_open e st of
           Inl err \<Rightarrow> Inl err
         | Inr (available, st0) \<Rightarrow>
             if \<not> available then Inr (None, st0)
             else if \<not> asprintf_ok e (Q_client_count ip) then Inr (None, st0)
             else
               let (rc, s) = sqlite3_prepare_v2 e (gravity_db st0) (Some (Q_client_count ip));
                   st1 = (emit (E_prepare (gravity_db st0) (Some (Q_client_count ip))) st0)
                           \<lparr>table_stmt := s\<rparr>
               in if rc \<noteq> SQLITE_OK then Inr (None, st1)
                  else
                    let (rc2, v) = sqlite3_step e (table_stmt st1) None;
                        st2 = emit (E_step (table_stmt st1)) st1
                    in if rc2 \<noteq> SQLITE_ROW \<and> rc2 \<noteq> SQLITE_DONE
                       then Inr (None, gravityDB_finalizeTable st2)
                       else
                         let groups = (if rc2 = SQLITE_ROW
                                       then (if sqlite3_column_int v = 0 then Some ''0'' else None)
                                       else Some ''0'');
                             st3 = gravityDB_finalizeTable st2
                         in if groups \<noteq> None then Inr (groups, st3)
                            else Inr (get_client_groupids_assoc e st3 ip))"

text \<open>
  \<^verbatim>\<open>gravityDB_prepare_client_statements\<close>: the three statements are prepared and
  stored in source order (whitelist, gravity, blacklist); a failed preparation closes
  the database.
\<close>

definition gravityDB_prepare_client_statements ::
  "env \<Rightarrow> gravity_state \<Rightarrow> nat \<Rightarrow> clientsData \<Rightarrow> error + (bool \<times> gravity_state)" where
  "gravityDB_prepare_client_statements e st clientID client =
     (case opened_or_open e st of
        Inl err \<Rightarrow> Inl err
      | Inr (available, st0) \<Rightarrow>
          if \<not> available then Inr (False, st0)
          else
            (case get_client_groupids e st0 client of
               Inl err \<Rightarrow> Inl err
             | Inr (None, st1) \<Rightarrow> Inr (False, st1)
             | Inr (Some groups, st1) \<Rightarrow>
                 let querystr = get_client_querystr e ''vw_whitelist'' groups;
                     (rc, stmt) = sqlite3_prepare_v2 e (gravity_db st1) querystr;
                     st2 = emit (E_prepare (gravity_db st1) querystr) st1
                 in if rc \<noteq> SQLITE_OK then close_return_false e st2
                    else
                      (case whitelist_stmt st2 of
                         None \<Rightarrow> Inl NullDeref
                       | Some wv \<Rightarrow>
                           let st3 = st2\<lparr>whitelist_stmt := Some (vec_set wv clientID stmt)\<rparr>;
                               querystr = get_client_querystr e ''vw_gravity'' groups;
                               (rc, stmt) = sqlite3_prepare_v2 e (gravity_db st3) querystr;
                               st4 = emit (E_prepare (gravity_db st3) querystr) st3
                           in if rc \<noteq> SQLITE_OK then close_return_false e st4
                              else
                                (case gravity_stmt st4 of
                                   None \<Rightarrow> Inl NullDeref
                                 | Some gv \<Rightarrow>
                                     let st5 = st4\<lparr>gravity_stmt := Some (vec_set gv clientID stmt)\<rparr>;
                                         querystr = get_client_querystr e ''vw_blacklist'' groups;
                                         (rc, stmt) = sqlite3_prepare_v2 e (gravity_db st5) querystr;
                                         st6 = emit (E_prepare (gravity_db st5) querystr) st5
                                     in if rc \<noteq> SQLITE_OK then close_return_false e st6
                                        else
                                          (case blacklist_stmt st6 of
                                             None \<Rightarrow> Inl NullDeref
                                           | Some bv \<Rightarrow>
                                               Inr (True,
                                                    st6\<lparr>blacklist_stmt :=
                                                           Some (vec_set bv clientID stmt)\<rparr>))))))"

subsection \<open>Tables and counts\<close>

definition gravityDB_getTable :: "env \<Rightarrow> gravity_state \<Rightarrow> 8 word \<Rightarrow> error + (bool \<times> gravity_state)" where
  "gravityDB_getTable e st list =
     (case gravityDB_check_fork e st of
        Inl err \<Rightarrow> Inl err
      | Inr st0 \<Rightarrow>
          (case opened_or_open e st0 of
             Inl err \<Rightarrow> Inl err
           | Inr (available, st1) \<Rightarrow>
               if \<not> available then Inr (False, st1)
               else if list \<ge> UNKNOWN_TABLE then Inr (False, st1)
               else if \<not> asprintf_ok e (Q_table (tablename ! unat list)) then Inr (False, st1)
               else
                 let querystr = Some (Q_table (tablename ! unat list));
                     (rc, s) = sqlite3_prepare_v2 e (gravity_db st1) querystr;
                     st2 = (emit (E_prepare (gravity_db st1) querystr) st1)\<lparr>table_stmt := s\<rparr>
                 in if rc \<noteq> SQLITE_OK then close_return_false e st2
                    else Inr (True, st2)))"

text \<open>
  \<^verbatim>\<open>gravityDB_count\<close>. \<open>DB_FAILED\<close> is a macro of FTL.h, which is not among the
  sources: it is a parameter. The two \<^verbatim>\<open>return false\<close> of the source return the
  integer 0.
\<close>

definition count_failed :: "int \<Rightarrow> env \<Rightarrow> gravity_state \<Rightarrow> error + (int \<times> gravity_state)" where
  "count_failed DB_FAILED e st =
     (case gravityDB_close e (gravityDB_finalizeTable st) of
        Inl err \<Rightarrow> Inl err
      | Inr st' \<Rightarrow> Inr (DB_FAILED, st'))"

definition gravityDB_count :: "int \<Rightarrow> env \<Rightarrow> gravity_state \<Rightarrow> 8 word \<Rightarrow> error + (int \<times> gravity_state)" where
  "gravityDB_count DB_FAILED e st list =
     (case opened_or_open e st of
        Inl err \<Rightarrow> Inl err
      | Inr (available, st1) \<Rightarrow>
          if \<not> available then Inr (DB_FAILED, st1)
          else if list \<ge> UNKNOWN_TABLE then Inr (0, st1)
          else
            let q = (if list \<noteq> GRAVITY_TABLE then Q_count_distinct (tablename ! unat list)
                     else Q_gravity_count)
            in if \<not> asprintf_ok e q then Inr (0, st1)
               else
                 let (rc, s) = sqlite3_prepare_v2 e (gravity_db st1) (Some q);
                     st2 = (emit (E_prepare (gravity_db st1) (Some q)) st1)\<lparr>table_stmt := s\<rparr>
                 in if rc \<noteq> SQLITE_OK then count_failed DB_FAILED e st2
                    else
                      let (rc2, v) = sqlite3_step e (table_stmt st2) None;
                          st3 = emit (E_step (table_stmt st2)) st2
                      in if rc2 \<noteq> SQLITE_ROW then count_failed DB_FAILED e st3
                         else
                           let result = sqlite3_column_int v
                           in Inr (result, gravityDB_finalizeTable st3))"

subsection \<open>Membership\<close>

definition reset_and_clear :: "stmt option \<Rightarrow> gravity_state \<Rightarrow> gravity_state" where
  "reset_and_clear stmt st = emit (E_clear_bindings stmt) (emit (E_reset stmt) st)"

definition domain_in_list ::
  "env \<Rightarrow> gravity_state \<Rightarrow> string \<Rightarrow> stmt option \<Rightarrow> error + (bool \<times> gravity_state)" where
  "domain_in_list e st domain stmt =
     (case opened_or_open e st of
        Inl err \<Rightarrow> Inl err
      | Inr (available, st1) \<Rightarrow>
          if \<not> available then Inr (False, st1)
          else
            let rc = sqlite3_bind_text e stmt domain;
                st2 = emit (E_bind stmt domain) st1
            in if rc \<noteq> SQLITE_OK then Inr (False, st2)
               else
                 let (rc2, v) = sqlite3_step e stmt (Some domain);
                     st3 = emit (E_step stmt) st2
                 in if rc2 = SQLITE_BUSY then Inr (False, reset_and_clear stmt st3)
                    else if rc2 \<noteq> SQLITE_ROW then Inr (False, reset_and_clear stmt st3)
                    else
                      let result = sqlite3_column_int v
                      in Inr (result = 1, reset_and_clear stmt st3))"

text \<open>
  The last statement of \<^verbatim>\<open>in_whitelist\<close>:
  \<^verbatim>\<open>return domain_in_list(domain, stmt, "whitelist") || match_regex(domain, clientID, REGEX_WHITELIST) != -1;\<close>
\<close>

definition whitelist_or_regex ::
  "env \<Rightarrow> gravity_state \<Rightarrow> string \<Rightarrow> nat \<Rightarrow> stmt option \<Rightarrow> error + (bool \<times> gravity_state)" where
  "whitelist_or_regex e st domain clientID stmt =
     (case domain_in_list e st domain stmt of
        Inl err \<Rightarrow> Inl err
      | Inr (found, st1) \<Rightarrow>
          if found then Inr (True, st1)
          else Inr (match_regex e domain clientID REGEX_WHITELIST \<noteq> - 1,
                    emit (E_match_regex domain clientID REGEX_WHITELIST) st1))"

definition in_whitelist ::
  "env \<Rightarrow> gravity_state \<Rightarrow> string \<Rightarrow> nat \<Rightarrow> clientsData \<Rightarrow> error + (bool \<times> gravity_state)" where
  "in_whitelist e st domain clientID client =
     (case gravityDB_check_fork e st of
        Inl err \<Rightarrow> Inl err
      | Inr st0 \<Rightarrow>
          (case whitelist_stmt st0 of
             None \<Rightarrow> Inl NullDeref
           | Some wv \<Rightarrow>
               let stmt = vec_get wv clientID
               in if stmt = None then
                    (case gravityDB_prepare_client_statements e st0 clientID client of
                       Inl err \<Rightarrow> Inl err
                     | Inr (prepared, st1) \<Rightarrow>
                         if \<not> prepared then Inr (False, st1)
                         else
                           (case whitelist_stmt st1 of
                              None \<Rightarrow> Inl NullDeref
                            | Some wv' \<Rightarrow>
                                whitelist_or_regex e st1 domain clientID (vec_get wv' clientID)))
                  else whitelist_or_regex e st0 domain clientID stmt))"

definition in_gravity ::
  "env \<Rightarrow> gravity_state \<Rightarrow> string \<Rightarrow> nat \<Rightarrow> clientsData \<Rightarrow> error + (bool \<times> gravity_state)" where
  "in_gravity e st domain clientID client =
     (case gravityDB_check_fork e st of
        Inl err \<Rightarrow> Inl err
      | Inr st0 \<Rightarrow>
          (case gravity_stmt st0 of
             None \<Rightarrow> Inl NullDeref
           | Some gv \<Rightarrow>
               let stmt = vec_get gv clientID
               in if stmt = None then
                    (case gravityDB_prepare_client_statements e st0 clientID client of
                       Inl err \<Rightarrow> Inl err
                     | Inr (prepared, st1) \<Rightarrow>
                         if \<not> prepared then Inr (False, st1)
                         else
                           (case whitelist_stmt st1 of
                              None \<Rightarrow> Inl NullDeref
                            | Some wv' \<Rightarrow> domain_in_list e st1 domain (vec_get wv' clientID)))
                  else domain_in_list e st0 domain stmt))"

definition in_blacklist ::
  "env \<Rightarrow> gravity_state \<Rightarrow> string \<Rightarrow> nat \<Rightarrow> clientsData \<Rightarrow> error + (bool \<times> gravity_state)" where
  "in_blacklist e st domain clientID client =
     (case gravityDB_check_fork e st of
        Inl err \<Rightarrow> Inl err
      | Inr st0 \<Rightarrow>
          (case blacklist_stmt st0 of
             None \<Rightarrow> Inl NullDeref
           | Some bv \<Rightarrow>
               let stmt = vec_get bv clientID
               in if stmt = None then
                    (case gravityDB_prepare_client_statements e st0 clientID client of
                       Inl err \<Rightarrow> Inl err
                     | Inr (prepared, st1) \<Rightarrow>
                         if \<not> prepared then Inr (False, st1)
                         else
                           (case whitelist_stmt st1 of
                              None \<Rightarrow> Inl NullDeref
                            | Some wv' \<Rightarrow> domain_in_list e st1 domain (vec_get wv' clientID)))
                  else domain_in_list e st0 domain stmt))"

definition in_auditlist :: "env \<Rightarrow> gravity_state \<Rightarrow> string \<Rightarrow> error + (bool \<times> gravity_state)" where
  "in_auditlist e st domain =
     (case gravityDB_check_fork e st of
        Inl err \<Rightarrow> Inl err
      | Inr st0 \<Rightarrow>
          if auditlist_stmt st0 = None then Inr (False, st0)
          else domain_in_list e st0 domain (auditlist_stmt st0))"

subsection \<open>Notions used to state the properties\<close>

text \<open>The value a call returns, without the state it leaves.\<close>

definition returned :: "error + ('a \<times> gravity_state) \<Rightarrow> error + 'a" where
  "returned r = (case r of Inl err \<Rightarrow> Inl err | Inr (v, st) \<Rightarrow> Inr v)"

text \<open>
  The specification's notion of an exact match: the domain equals an entry of the list
  whose group is one of the client's groups.
\<close>

definition exactly_listed :: "database \<Rightarrow> string \<Rightarrow> string \<Rightarrow> string \<Rightarrow> bool" where
  "exactly_listed d table groups domain =
     list_ex (\<lambda>(dom, rid, group_id). dom = domain \<and> group_id \<in> set (parse_groups groups))
       (views d table)"

text \<open>A vector exists and its slot for the client holds the statement, or holds none.\<close>

definition slot_holds :: "sqlite3_stmt_vec option \<Rightarrow> nat \<Rightarrow> stmt \<Rightarrow> bool" where
  "slot_holds vec clientID s =
     (case vec of None \<Rightarrow> False | Some v \<Rightarrow> vec_get v clientID = Some s)"

definition slot_empty :: "sqlite3_stmt_vec option \<Rightarrow> nat \<Rightarrow> bool" where
  "slot_empty vec clientID =
     (case vec of None \<Rightarrow> False | Some v \<Rightarrow> vec_get v clientID = None)"

definition holds_statements :: "gravity_state \<Rightarrow> nat \<Rightarrow> conn \<Rightarrow> string \<Rightarrow> bool" where
  "holds_statements st clientID c groups =
     (slot_holds (whitelist_stmt st) clientID (Stmt c (Q_exists ''vw_whitelist'' groups)) \<and>
      slot_holds (gravity_stmt st) clientID (Stmt c (Q_exists ''vw_gravity'' groups)) \<and>
      slot_holds (blacklist_stmt st) clientID (Stmt c (Q_exists ''vw_blacklist'' groups)))"

definition unprepared :: "gravity_state \<Rightarrow> nat \<Rightarrow> bool" where
  "unprepared st clientID =
     (slot_empty (whitelist_stmt st) clientID \<and> slot_empty (gravity_stmt st) clientID \<and>
      slot_empty (blacklist_stmt st) clientID)"

text \<open>
  The process has not forked since the last check and the store is open: without the
  three statements of the client (\<open>fresh\<close>), or with them, prepared on connection \<open>c\<close>
  for the group list \<open>groups\<close> (\<open>ready\<close>).
\<close>

definition fresh :: "env \<Rightarrow> gravity_state \<Rightarrow> nat \<Rightarrow> conn \<Rightarrow> bool" where
  "fresh e st clientID c =
     (main_process st \<noteq> 0 \<and> this_process st = getpid e \<and> gravityDB_opened st \<and>
      gravity_db st = Some c \<and> unprepared st clientID)"

definition ready :: "env \<Rightarrow> gravity_state \<Rightarrow> nat \<Rightarrow> conn \<Rightarrow> string \<Rightarrow> bool" where
  "ready e st clientID c groups =
     (main_process st \<noteq> 0 \<and> this_process st = getpid e \<and> gravityDB_opened st \<and>
      holds_statements st clientID c groups)"


definition exists_queries_ok :: "env \<Rightarrow> string \<Rightarrow> bool" where
  "exists_queries_ok e groups =
     (asprintf_ok e (Q_exists ''vw_whitelist'' groups) \<and>
      prepare_rc e (Q_exists ''vw_whitelist'' groups) = SQLITE_OK \<and>
      asprintf_ok e (Q_exists ''vw_gravity'' groups) \<and>
      prepare_rc e (Q_exists ''vw_gravity'' groups) = SQLITE_OK \<and>
      asprintf_ok e (Q_exists ''vw_blacklist'' groups) \<and>
      prepare_rc e (Q_exists ''vw_blacklist'' groups) = SQLITE_OK)"

text \<open>The four events of a lookup that reaches \<^verbatim>\<open>sqlite3_step\<close>.\<close>

definition lookup_events :: "stmt \<Rightarrow> string \<Rightarrow> event list" where
  "lookup_events s domain =
     [E_bind (Some s) domain, E_step (Some s), E_reset (Some s), E_clear_bindings (Some s)]"

subsection \<open>An example database, environments and states\<close>

text \<open>
  One client record (192.168.1.10) without group associations; one entry in each exact
  list, all in group 0; one audit pattern.
\<close>

definition db_example :: database where
  "db_example =
     \<lparr>tbl_client = [(1, ''192.168.1.10'')],
      tbl_client_by_group = [],
      views = (\<lambda>t. if t = ''vw_gravity'' then [(''ads.example'', 1, 0)]
                   else if t = ''vw_whitelist'' then [(''good.example'', 1, 0)]
                   else if t = ''vw_blacklist'' then [(''bad.example'', 1, 0)]
                   else []),
      tbl_domain_audit = [''*.google.de''],
      info_gravity_count = Some 1,
      subnet_match = (\<lambda>ip clientip. ip = clientip)\<rparr>"

text \<open>Process 1 with a healthy database, one known client and no regex match.\<close>

definition env_ok :: env where
  "env_ok =
     \<lparr>getpid = 1, stat_ok = True, open_rc = SQLITE_OK, exec_rc = SQLITE_OK,
      prepare_rc = (\<lambda>q. SQLITE_OK), bind_rc = (\<lambda>s d. SQLITE_OK),
      step_fault = (\<lambda>s. None), asprintf_ok = (\<lambda>q. True), clients = 1,
      match_regex = (\<lambda>d c t. - 1), db = db_example\<rparr>"

text \<open>The same database seen from a forked process, with failing binds, and busy.\<close>

definition env_child :: env where
  "env_child = env_ok\<lparr>getpid := 2\<rparr>"

definition env_bind_fails :: env where
  "env_bind_fails = env_ok\<lparr>bind_rc := (\<lambda>s d. SQLITE_ERROR)\<rparr>"

definition env_busy :: env where
  "env_busy = env_ok\<lparr>step_fault := (\<lambda>s. Some SQLITE_BUSY)\<rparr>"

text \<open>The healthy environment with a single audit pattern.\<close>

definition env_audit :: "string \<Rightarrow> env" where
  "env_audit pattern = env_ok\<lparr>db := db_example\<lparr>tbl_domain_audit := [pattern]\<rparr>\<rparr>"

definition client_unmatched :: clientsData where
  "client_unmatched = \<lparr>client_ip = ''10.0.0.1''\<rparr>"


text \<open>
  The store of process 1 after a successful \<^verbatim>\<open>gravityDB_open\<close> (trace emptied), the
  same after \<^verbatim>\<open>gravityDB_close\<close>, and the open store with the statements of client 0
  prepared for the group list \<open>groups\<close>.
\<close>

definition state_open :: gravity_state where
  "state_open =
     \<lparr>whitelist_stmt = Some [None], gravity_stmt = Some [None], blacklist_stmt = Some [None],
      gravity_db = Some (Conn 1), table_stmt = None,
      auditlist_stmt = Some (Stmt (Conn 1) Q_audit), gravityDB_opened = True,
      main_process = 1, this_process = 1, trace = []\<rparr>"

definition state_closed :: gravity_state where
  "state_closed =
     \<lparr>whitelist_stmt = None, gravity_stmt = None, blacklist_stmt = None,
      gravity_db = None, table_stmt = None, auditlist_stmt = None, gravityDB_opened = False,
      main_process = 1, this_process = 1,
      trace = [E_finalize (Some (Stmt (Conn 1) Q_audit)), E_close (Some (Conn 1))]\<rparr>"

definition state_prepared :: "string \<Rightarrow> gravity_state" where
  "state_prepared groups =
     state_open
       \<lparr>whitelist_stmt := Some [Some (Stmt (Conn 1) (Q_exists ''vw_whitelist'' groups))],
        gravity_stmt := Some [Some (Stmt (Conn 1) (Q_exists ''vw_gravity'' groups))],
        blacklist_stmt := Some [Some (Stmt (Conn 1) (Q_exists ''vw_blacklist'' groups))]\<rparr>"

text \<open>
  The specification's whitelist decision for a statement prepared for \<open>groups\<close>: true
  when the domain is exactly listed, without a call of the regex subsystem; otherwise
  the answer of the regex subsystem, called after the lookup.
\<close>

definition whitelist_outcome ::
  "env \<Rightarrow> gravity_state \<Rightarrow> conn \<Rightarrow> string \<Rightarrow> string \<Rightarrow> nat \<Rightarrow> error + (bool \<times> gravity_state)" where
  "whitelist_outcome e st c groups domain clientID =
     (if exactly_listed (db e) ''vw_whitelist'' groups domain
      then Inr (True,
                st\<lparr>trace := trace st @
                      lookup_events (Stmt c (Q_exists ''vw_whitelist'' groups)) domain\<rparr>)
      else Inr (match_regex e domain clientID REGEX_WHITELIST \<noteq> - 1,
                st\<lparr>trace := trace st @
                      lookup_events (Stmt c (Q_exists ''vw_whitelist'' groups)) domain @
                      [E_match_regex domain clientID REGEX_WHITELIST]\<rparr>))"

text \<open>
  The database file is missing; \<^verbatim>\<open>sqlite3_open_v2\<close> fails; a whitelist regex matches
  every domain.
\<close>

definition env_missing :: env where
  "env_missing = env_ok\<lparr>stat_ok := False\<rparr>"

definition env_open_fails :: env where
  "env_open_fails = env_ok\<lparr>open_rc := SQLITE_ERROR\<rparr>"

definition env_pragma_fails :: env where
  "env_pragma_fails = env_ok\<lparr>exec_rc := SQLITE_ERROR\<rparr>"


definition stmt_gravity0 :: stmt where
  "stmt_gravity0 = Stmt (Conn 1) (Q_exists ''vw_gravity'' ''0'')"

text \<open>
  The store right after the first successful \<^verbatim>\<open>gravityDB_open\<close> of process 1, and the
  never-opened store after a failed \<^verbatim>\<open>sqlite3_open_v2\<close>.
\<close>

definition state_first_opened :: gravity_state where
  "state_first_opened =
     \<lparr>whitelist_stmt = Some [None], gravity_stmt = Some [None], blacklist_stmt = Some [None],
      gravity_db = Some (Conn 1), table_stmt = None,
      auditlist_stmt = Some (Stmt (Conn 1) Q_audit), gravityDB_opened = True,
      main_process = 0, this_process = 0,
      trace = [E_open 1, E_exec (Conn 1), E_prepare (Some (Conn 1)) (Some Q_audit),
               E_busy_timeout (Conn 1), E_busy_timeout (Conn 1)]\<rparr>"

definition state_open_failed :: gravity_state where
  "state_open_failed = initial_state\<lparr>gravity_db := Some (Conn 1), trace := [E_open 1]\<rparr>"

text \<open>Two registrations after \<^verbatim>\<open>init_blocked_IP\<close>, one per family, and a call with an unknown family.\<close>

definition calls_example :: "(string \<times> 8 word) list" where
  "calls_example = [(''::1'', 6), (''1.2.3.4'', 4), (''5.6.7.8'', 7)]"

text \<open>The registry after \<^verbatim>\<open>init_blocked_IP\<close> and the calls of \<open>calls_example\<close>.\<close>

definition registry_example :: blocked_IPs where
  "registry_example =
     \<lparr>blocked_IP_v4 =
        [Some ''0.0.0.0'', Some ''146.112.61.104'', Some ''146.112.61.105'',
         Some ''146.112.61.106'', Some ''146.112.61.107'', Some ''146.112.61.108'',
         Some ''146.112.61.109'', Some ''146.112.61.110'', Some ''1.2.3.4'',
         None, None, None],
      blocked_IP_v6 =
        [Some ''::'', Some ''::ffff:146.112.61.104'', Some ''::ffff:146.112.61.105'',
         Some ''::ffff:146.112.61.106'', Some ''::ffff:146.112.61.107'',
         Some ''::ffff:146.112.61.108'', Some ''::ffff:146.112.61.109'',
         Some ''::ffff:146.112.61.110'', Some ''::1'',
         None, None, None]\<rparr>"

section \<open>Properties of the blocked-IP registry\<close>

declare add_loop.simps [simp del] scan_loop.simps [simp del]

lemma first_empty_le: "first_empty list \<le> length list"
  by (simp add: first_empty_def length_takeWhile_le)

lemma first_empty_None: "first_empty list < length list \<Longrightarrow> list ! first_empty list = None"
  unfolding first_empty_def using nth_length_takeWhile [of "\<lambda>x. x \<noteq> None" list] by simp

lemma before_first_empty: "i < first_empty list \<Longrightarrow> list ! i \<noteq> None"
  unfolding first_empty_def using nth_mem [of i "takeWhile (\<lambda>x. x \<noteq> None) list"]
  by (metis (mono_tags, lifting) set_takeWhileD takeWhile_nth)

lemma add_loop_spec:
  "length list = maxIPs \<Longrightarrow> i \<le> first_empty list \<Longrightarrow>
   add_loop L addr list i =
     (if first_empty list < maxIPs
      then (list[first_empty list := strdup L addr], strdup_ok L addr)
      else (list, False))"
proof (induction L addr list i rule: add_loop.induct)
  case (1 L addr list i)
  show ?case
  proof (cases "i < maxIPs")
    case False
    with "1.prems" show ?thesis by (simp add: add_loop.simps)
  next
    case True
    show ?thesis
    proof (cases "list ! i = None")
      case True
      have "first_empty list = i"
        using True "1.prems" before_first_empty [of i list] by (cases "i < first_empty list") auto
      with True \<open>i < maxIPs\<close> "1.prems" show ?thesis
        by (simp add: add_loop.simps [of L addr list i] strdup_def)
    next
      case False
      have "first_empty list \<noteq> i"
        using False first_empty_None [of list] \<open>i < maxIPs\<close> "1.prems" by auto
      with "1.prems" have "Suc i \<le> first_empty list" by simp
      with "1.IH" [OF \<open>i < maxIPs\<close> False] "1.prems" False \<open>i < maxIPs\<close> show ?thesis
        by (auto simp: add_loop.simps [of L addr list i])
    qed
  qed
qed

lemma scan_loop_spec:
  "length list = maxIPs \<Longrightarrow> i \<le> first_empty list \<Longrightarrow>
   scan_loop a list i = (Some a \<in> set (drop i (take (first_empty list) list)))"
proof (induction a list i rule: scan_loop.induct)
  case (1 a list i)
  show ?case
  proof (cases "i < maxIPs")
    case False
    with "1.prems" first_empty_le [of list] show ?thesis
      by (simp add: scan_loop.simps [of a list i])
  next
    case True
    show ?thesis
    proof (cases "list ! i")
      case None
      have "first_empty list = i"
        using None "1.prems" before_first_empty [of i list] by (cases "i < first_empty list") auto
      with None True show ?thesis
        by (simp add: scan_loop.simps [of a list i])
    next
      case (Some entry)
      have "first_empty list \<noteq> i"
        using Some first_empty_None [of list] True "1.prems" by auto
      with "1.prems" have lt: "i < first_empty list" by simp
      have d: "drop i (take (first_empty list) list) = list ! i # drop (Suc i) (take (first_empty list) list)"
        using lt first_empty_le [of list] by (simp add: Cons_nth_drop_Suc [symmetric])
      show ?thesis
      proof (cases "a = entry")
        case True
        with Some \<open>i < maxIPs\<close> d show ?thesis
          by (simp add: scan_loop.simps [of entry list i])
      next
        case False
        with "1.IH" [OF True Some False] "1.prems" lt Some True d show ?thesis
          by (simp add: scan_loop.simps [of a list i])
      qed
    qed
  qed
qed

lemma contiguous_set:
  "contiguous list \<Longrightarrow> (Some a \<in> set list) = (Some a \<in> set (take (first_empty list) list))"
proof -
  assume c: "contiguous list"
  have "set list = set (take (first_empty list) list) \<union> set (drop (first_empty list) list)"
    by (metis append_take_drop_id set_append)
  moreover have "Some a \<notin> set (drop (first_empty list) list)"
    using c by (auto simp: contiguous_def list_all_iff)
  ultimately show ?thesis by auto
qed

lemma scan_complete:
  assumes "contiguous list"
  shows "scan_loop a list 0 = (Some a \<in> set list)"
proof -
  have len: "length list = maxIPs" using assms by (simp add: contiguous_def)
  show ?thesis
    by (simp add: scan_loop_spec [OF len] contiguous_set [OF assms])
qed

lemma holds_exactly_length: "holds_exactly list r \<Longrightarrow> length list = maxIPs"
  by (simp add: holds_exactly_def)

lemma takeWhile_filled:
  "takeWhile (\<lambda>x. x \<noteq> None) (map Some r @ replicate n None) = map Some r"
  by (induction r) (simp_all add: takeWhile_replicate)

lemma holds_exactly_first_empty: "holds_exactly list r \<Longrightarrow> first_empty list = length r"
  by (simp add: holds_exactly_def first_empty_def takeWhile_filled del: not_None_eq)

lemma holds_exactly_set: "holds_exactly list r \<Longrightarrow> (Some a \<in> set list) = (a \<in> set r)"
  by (auto simp: holds_exactly_def)

lemma holds_exactly_contiguous: "holds_exactly list r \<Longrightarrow> contiguous list"
  by (simp add: contiguous_def holds_exactly_first_empty holds_exactly_length)
     (simp add: holds_exactly_def list_all_iff)

lemma holds_exactly_empty: "holds_exactly (replicate maxIPs None) []"
  by (simp add: holds_exactly_def)

lemma holds_exactly_update:
  assumes "holds_exactly list r" "length r < maxIPs"
  shows "holds_exactly (list[length r := Some a]) (r @ [a])"
proof -
  from assms(2) obtain k where k: "maxIPs - length r = Suc k"
    by (cases "maxIPs - length r") auto
  then have k': "maxIPs - Suc (length r) = k" by simp
  from assms(1) k have "list = map Some r @ None # replicate k None"
    by (simp add: holds_exactly_def)
  then have "list[length r := Some a] = map Some r @ Some a # replicate k None"
    using list_update_length [of "map Some r" None "replicate k None" "Some a"] by simp
  with assms(2) k' show ?thesis by (simp add: holds_exactly_def)
qed

lemma holds_exactly_scan:
  assumes "holds_exactly list r"
  shows "scan_loop a list 0 = (a \<in> set r)"
  using scan_complete [OF holds_exactly_contiguous [OF assms], of a] holds_exactly_set [OF assms, of a]
  by simp

lemma add_loop_holds:
  assumes "holds_exactly list r"
  shows "add_loop L addr list 0 =
           (if length r < maxIPs \<and> strdup_ok L addr then (list[length r := Some addr], True)
            else (list, False))"
proof -
  note len = holds_exactly_length [OF assms]
  note fe = holds_exactly_first_empty [OF assms]
  have "list[length r := None] = list" if "length r < maxIPs"
    using first_empty_None [of list] len fe that by (metis list_update_id)
  then show ?thesis
    using add_loop_spec [OF len, of 0 L addr] by (auto simp: fe strdup_def)
qed

lemma add_blocked_IP_step:
  assumes "holds_exactly (blocked_IP_v4 reg) r4" "holds_exactly (blocked_IP_v6 reg) r6"
    and "add_blocked_IP L reg addr t = (reg', ok)"
  shows "(ok \<longrightarrow>
            (t = 4 \<and> length r4 < maxIPs \<and>
             reg' = reg\<lparr>blocked_IP_v4 := (blocked_IP_v4 reg)[length r4 := Some addr]\<rparr>) \<or>
            (t = 6 \<and> length r6 < maxIPs \<and>
             reg' = reg\<lparr>blocked_IP_v6 := (blocked_IP_v6 reg)[length r6 := Some addr]\<rparr>)) \<and>
         (\<not> ok \<longrightarrow> reg' = reg)"
  using assms(3)
  by (auto simp: add_blocked_IP_def add_loop_holds [OF assms(1)] add_loop_holds [OF assms(2)]
           split: if_splits)

lemma add_recorded_registered:
  assumes "registered s"
  shows "registered (add_recorded L s call)"
proof -
  obtain reg r4 r6 where s: "s = (reg, r4, r6)" by (cases s) auto
  obtain addr t where c: "call = (addr, t)" by (cases call) auto
  obtain reg' ok where a: "add_blocked_IP L reg addr t = (reg', ok)"
    by (cases "add_blocked_IP L reg addr t") auto
  from assms s have h4: "holds_exactly (blocked_IP_v4 reg) r4"
    and h6: "holds_exactly (blocked_IP_v6 reg) r6" by (simp_all add: registered_def)
  note step = add_blocked_IP_step [OF h4 h6 a]
  have ar: "add_recorded L s call =
              (reg', if ok \<and> t = 4 then r4 @ [addr] else r4,
                     if ok \<and> t = 6 then r6 @ [addr] else r6)"
    by (simp add: s c a add_recorded_def)
  show ?thesis
  proof (cases ok)
    case False
    with step have "reg' = reg" by simp
    with False h4 h6 show ?thesis
      unfolding ar by (simp add: registered_def)
  next
    case True
    with step consider
      (four) "t = 4" "length r4 < maxIPs"
        "reg' = reg\<lparr>blocked_IP_v4 := (blocked_IP_v4 reg)[length r4 := Some addr]\<rparr>"
      | (six) "t = 6" "length r6 < maxIPs"
        "reg' = reg\<lparr>blocked_IP_v6 := (blocked_IP_v6 reg)[length r6 := Some addr]\<rparr>"
      by blast
    then show ?thesis
    proof cases
      case four
      with True h6 holds_exactly_update [OF h4 four(2), of addr] show ?thesis
        unfolding ar by (simp add: registered_def)
    next
      case six
      with True h4 holds_exactly_update [OF h6 six(2), of addr] show ?thesis
        unfolding ar by (simp add: registered_def)
    qed
  qed
qed

lemma foldl_add_recorded_registered:
  "registered s \<Longrightarrow> registered (foldl (add_recorded L) s calls)"
  by (induction calls arbitrary: s) (simp_all add: add_recorded_registered)

lemma registry_after_registered: "registered (registry_after L calls)"
proof -
  have "registered nothing_recorded"
    by (simp add: nothing_recorded_def registered_def holds_exactly_empty)
  then have "registered (init_recorded L)"
    unfolding init_recorded_def by (rule foldl_add_recorded_registered)
  then show ?thesis
    unfolding registry_after_def by (rule foldl_add_recorded_registered)
qed

lemma fst_foldl_add_recorded:
  "fst (foldl (add_recorded L) s calls) =
     foldl (\<lambda>reg (addr, type). fst (add_blocked_IP L reg addr type)) (fst s) calls"
  by (induction calls arbitrary: s) (auto simp: add_recorded_def split: prod.splits)

lemma fst_registry_after:
  "fst (registry_after L calls) =
     foldl (\<lambda>reg (addr, type). fst (add_blocked_IP L reg addr type)) (init_blocked_IP L) calls"
  by (simp add: registry_after_def init_recorded_def nothing_recorded_def init_blocked_IP_def
        fst_foldl_add_recorded)

text \<open>
  C2 (code defect). The claim: for each family in {4, 6}, \<^verbatim>\<open>is_blocked_IP\<close> is true
  exactly for the addresses of that family's registry, so that right after
  initialisation \<open>''::''\<close> and \<open>''::ffff:146.112.61.104''\<close> are found for family 6.
  In the code both addresses are in the IPv6 registry after initialisation, and both
  lookups return false, because \<^verbatim>\<open>case 6\<close> runs into \<^verbatim>\<open>default\<close>: a lookup for
  family 6 returns false for every registry and every address.
\<close>

theorem is_blocked_IP_v6_seeds_not_found:
  "Some ''::'' \<in> set (blocked_IP_v6 (init_blocked_IP libc_ok)) \<and>
   Some ''::ffff:146.112.61.104'' \<in> set (blocked_IP_v6 (init_blocked_IP libc_ok)) \<and>
   is_blocked_IP (init_blocked_IP libc_ok) (Some ''::'') 6 = False \<and>
   is_blocked_IP (init_blocked_IP libc_ok) (Some ''::ffff:146.112.61.104'') 6 = False \<and>
   is_blocked_IP (init_blocked_IP libc_ok) (Some ''0.0.0.0'') 4 = True \<and>
   is_blocked_IP reg addr 6 = False"
proof -
  have "Some ''::'' \<in> set (blocked_IP_v6 (init_blocked_IP libc_ok))"
    "Some ''::ffff:146.112.61.104'' \<in> set (blocked_IP_v6 (init_blocked_IP libc_ok))"
    "is_blocked_IP (init_blocked_IP libc_ok) (Some ''0.0.0.0'') 4 = True"
    by code_simp+
  moreover have "is_blocked_IP r a 6 = False" for r a
    by (simp add: is_blocked_IP_def split: option.splits)
  ultimately show ?thesis by simp
qed

text \<open>
  C10 (code defect). The claim: for each family the non-NULL slots are a prefix of the
  array of \<^verbatim>\<open>maxIPs\<close> slots and a successful \<^verbatim>\<open>add_blocked_IP\<close> fills the first NULL
  slot, so that the scan of \<^verbatim>\<open>is_blocked_IP\<close> examines every address successfully
  registered for that family. In the code, after \<^verbatim>\<open>init_blocked_IP\<close> and any sequence
  of calls of \<^verbatim>\<open>add_blocked_IP\<close>, with \<open>r4\<close> and \<open>r6\<close> the addresses whose registration
  returned true: each array holds exactly these addresses in its first slots, in the
  order of registration, and NULL in every other slot; a further call that returns true
  has written the first NULL slot of the array of its family and nothing else, and one
  that returns false has changed nothing; the comparison loop from slot 0 finds exactly
  the registered addresses, on either array; and \<^verbatim>\<open>is_blocked_IP\<close> for family 4 is
  true exactly for the addresses of \<open>r4\<close>. For family 6 \<^verbatim>\<open>is_blocked_IP\<close> never
  reaches the loop: \<^verbatim>\<open>case 6\<close> runs into \<^verbatim>\<open>default\<close> and returns false, also for
  every address of \<open>r6\<close>.
\<close>

theorem registry_prefix_and_lookup:
  assumes "registry_after L calls = (reg, r4, r6)"
  shows
    "reg = foldl (\<lambda>reg (addr, type). fst (add_blocked_IP L reg addr type))
             (init_blocked_IP L) calls \<and>
     holds_exactly (blocked_IP_v4 reg) r4 \<and> holds_exactly (blocked_IP_v6 reg) r6 \<and>
     contiguous (blocked_IP_v4 reg) \<and> contiguous (blocked_IP_v6 reg) \<and>
     first_empty (blocked_IP_v4 reg) = length r4 \<and>
     first_empty (blocked_IP_v6 reg) = length r6 \<and>
     (\<forall>addr t reg' ok. add_blocked_IP L reg addr t = (reg', ok) \<longrightarrow>
        (ok \<longrightarrow>
           (t = 4 \<and> first_empty (blocked_IP_v4 reg) < maxIPs \<and>
            reg' = reg\<lparr>blocked_IP_v4 :=
                     (blocked_IP_v4 reg)[first_empty (blocked_IP_v4 reg) := Some addr]\<rparr>) \<or>
           (t = 6 \<and> first_empty (blocked_IP_v6 reg) < maxIPs \<and>
            reg' = reg\<lparr>blocked_IP_v6 :=
                     (blocked_IP_v6 reg)[first_empty (blocked_IP_v6 reg) := Some addr]\<rparr>)) \<and>
        (\<not> ok \<longrightarrow> reg' = reg)) \<and>
     (\<forall>a. scan_loop a (blocked_IP_v4 reg) 0 = (a \<in> set r4)) \<and>
     (\<forall>a. scan_loop a (blocked_IP_v6 reg) 0 = (a \<in> set r6)) \<and>
     (\<forall>a. is_blocked_IP reg (Some a) 4 = (a \<in> set r4)) \<and>
     (\<forall>a. is_blocked_IP reg (Some a) 6 = False)"
proof -
  from registry_after_registered [of L calls] assms
  have h4: "holds_exactly (blocked_IP_v4 reg) r4" and h6: "holds_exactly (blocked_IP_v6 reg) r6"
    by (simp_all add: registered_def)
  have 1: "reg = foldl (\<lambda>reg (addr, type). fst (add_blocked_IP L reg addr type))
             (init_blocked_IP L) calls"
    using fst_registry_after [of L calls] assms by simp
  note f4 = holds_exactly_first_empty [OF h4]
  note f6 = holds_exactly_first_empty [OF h6]
  have 2: "\<forall>addr t reg' ok. add_blocked_IP L reg addr t = (reg', ok) \<longrightarrow>
        (ok \<longrightarrow>
           (t = 4 \<and> first_empty (blocked_IP_v4 reg) < maxIPs \<and>
            reg' = reg\<lparr>blocked_IP_v4 :=
                     (blocked_IP_v4 reg)[first_empty (blocked_IP_v4 reg) := Some addr]\<rparr>) \<or>
           (t = 6 \<and> first_empty (blocked_IP_v6 reg) < maxIPs \<and>
            reg' = reg\<lparr>blocked_IP_v6 :=
                     (blocked_IP_v6 reg)[first_empty (blocked_IP_v6 reg) := Some addr]\<rparr>)) \<and>
        (\<not> ok \<longrightarrow> reg' = reg)"
    unfolding f4 f6 using add_blocked_IP_step [OF h4 h6] by blast
  have 3: "is_blocked_IP reg (Some a) 4 = (a \<in> set r4)" for a
    by (simp add: is_blocked_IP_def holds_exactly_scan [OF h4])
  have 4: "is_blocked_IP reg (Some a) 6 = False" for a
    by (simp add: is_blocked_IP_def)
  from 1 h4 h6 f4 f6 2 3 4 holds_exactly_contiguous [OF h4] holds_exactly_contiguous [OF h6]
    holds_exactly_scan [OF h4] holds_exactly_scan [OF h6]
  show ?thesis by blast
qed

theorem registry_prefix_and_lookup_witness:
  "registry_after libc_ok calls_example =
     (registry_example,
      [''0.0.0.0'', ''146.112.61.104'', ''146.112.61.105'', ''146.112.61.106'',
       ''146.112.61.107'', ''146.112.61.108'', ''146.112.61.109'', ''146.112.61.110'',
       ''1.2.3.4''],
      [''::'', ''::ffff:146.112.61.104'', ''::ffff:146.112.61.105'',
       ''::ffff:146.112.61.106'', ''::ffff:146.112.61.107'', ''::ffff:146.112.61.108'',
       ''::ffff:146.112.61.109'', ''::ffff:146.112.61.110'', ''::1'']) \<and>
   first_empty (blocked_IP_v4 registry_example) = 9 \<and>
   first_empty (blocked_IP_v6 registry_example) = 9 \<and>
   add_blocked_IP libc_ok registry_example ''::2'' 6 =
     (registry_example\<lparr>blocked_IP_v6 := (blocked_IP_v6 registry_example)[9 := Some ''::2'']\<rparr>,
      True) \<and>
   add_blocked_IP libc_ok registry_example ''5.6.7.8'' 7 = (registry_example, False) \<and>
   is_blocked_IP registry_example (Some ''1.2.3.4'') 4 = True \<and>
   is_blocked_IP registry_example (Some ''5.6.7.8'') 4 = False \<and>
   scan_loop ''::1'' (blocked_IP_v6 registry_example) 0 = True \<and>
   is_blocked_IP registry_example (Some ''::1'') 6 = False"
proof -
  have r: "registry_after libc_ok calls_example =
     (registry_example,
      [''0.0.0.0'', ''146.112.61.104'', ''146.112.61.105'', ''146.112.61.106'',
       ''146.112.61.107'', ''146.112.61.108'', ''146.112.61.109'', ''146.112.61.110'',
       ''1.2.3.4''],
      [''::'', ''::ffff:146.112.61.104'', ''::ffff:146.112.61.105'',
       ''::ffff:146.112.61.106'', ''::ffff:146.112.61.107'', ''::ffff:146.112.61.108'',
       ''::ffff:146.112.61.109'', ''::ffff:146.112.61.110'', ''::1''])"
    by code_simp
  have a6: "add_blocked_IP libc_ok registry_example ''::2'' 6 =
     (registry_example\<lparr>blocked_IP_v6 := (blocked_IP_v6 registry_example)[9 := Some ''::2'']\<rparr>,
      True)"
    by code_simp
  have a7: "add_blocked_IP libc_ok registry_example ''5.6.7.8'' 7 = (registry_example, False)"
    by code_simp
  note t = registry_prefix_and_lookup [OF r]
  from t have f4: "first_empty (blocked_IP_v4 registry_example) = 9"
    and f6: "first_empty (blocked_IP_v6 registry_example) = 9"
    by simp_all
  from t have "is_blocked_IP registry_example (Some ''1.2.3.4'') 4 = True"
    "is_blocked_IP registry_example (Some ''5.6.7.8'') 4 = False"
    "scan_loop ''::1'' (blocked_IP_v6 registry_example) 0 = True"
    "is_blocked_IP registry_example (Some ''::1'') 6 = False"
    by simp_all
  with r a6 a7 f4 f6 show ?thesis by simp
qed

section \<open>Properties of the gravity database routines\<close>

subsection \<open>Basic facts\<close>

declare show_nat.simps [simp del]

lemma emit_sel [simp]:
  "whitelist_stmt (emit ev st) = whitelist_stmt st"
  "gravity_stmt (emit ev st) = gravity_stmt st"
  "blacklist_stmt (emit ev st) = blacklist_stmt st"
  "gravity_db (emit ev st) = gravity_db st"
  "table_stmt (emit ev st) = table_stmt st"
  "auditlist_stmt (emit ev st) = auditlist_stmt st"
  "gravityDB_opened (emit ev st) = gravityDB_opened st"
  "main_process (emit ev st) = main_process st"
  "this_process (emit ev st) = this_process st"
  "trace (emit ev st) = trace st @ [ev]"
  by (simp_all add: emit_def)

lemma opened_or_open_opened [simp]:
  "gravityDB_opened st \<Longrightarrow> opened_or_open e st = Inr (True, st)"
  by (simp add: opened_or_open_def)

lemma check_fork_same:
  "main_process st \<noteq> 0 \<Longrightarrow> this_process st = getpid e \<Longrightarrow> gravityDB_check_fork e st = Inr st"
  by (simp add: gravityDB_check_fork_def)

lemma check_fork_no_fork:
  "main_process st = 0 \<or> this_process st = getpid e \<Longrightarrow>
   \<exists>st0. gravityDB_check_fork e st = Inr st0 \<and>
         whitelist_stmt st0 = whitelist_stmt st \<and> gravity_stmt st0 = gravity_stmt st \<and>
         blacklist_stmt st0 = blacklist_stmt st \<and> auditlist_stmt st0 = auditlist_stmt st"
  by (auto simp: gravityDB_check_fork_def)

lemma finalizeTable_opened [simp]:
  "gravityDB_opened st \<Longrightarrow>
   gravityDB_finalizeTable st = (emit (E_finalize (table_stmt st)) st)\<lparr>table_stmt := None\<rparr>"
  by (simp add: gravityDB_finalizeTable_def)

lemma prepare_ok [simp]:
  "prepare_rc e q = SQLITE_OK \<Longrightarrow>
   sqlite3_prepare_v2 e (Some c) (Some q) = (SQLITE_OK, Some (Stmt c q))"
  by (simp add: sqlite3_prepare_v2_def)

lemma step_healthy [simp]:
  "step_fault e (Stmt c q) = None \<Longrightarrow>
   sqlite3_step e (Some (Stmt c q)) bound = run_query (db e) q bound"
  by (simp add: sqlite3_step_def)

lemma vec_get_set [simp]: "vec_get (vec_set v i s) i = s"
  by (simp add: vec_get_def vec_set_def nth_append)

lemma ready_trace [simp]:
  "ready e (st\<lparr>trace := t\<rparr>) clientID c groups = ready e st clientID c groups"
  by (simp add: ready_def holds_statements_def)

lemma run_query_exists:
  "run_query d (Q_exists table groups) (Some domain) =
     (SQLITE_ROW, SQL_INT (if exactly_listed d table groups domain then 1 else 0))"
proof -
  have "(\<lambda>(dom, rid, group_id). Some dom = Some domain \<and> group_id \<in> set (parse_groups groups))
        = (\<lambda>(dom, rid :: int, group_id). dom = domain \<and> group_id \<in> set (parse_groups groups))"
    by auto
  then show ?thesis by (simp add: exactly_listed_def)
qed

lemma not_listed_empty_scope [simp]: "\<not> exactly_listed d table '''' domain"
  by (simp add: exactly_listed_def parse_groups_def list_ex_iff)


subsection \<open>Closing\<close>

lemma finalize_client_pids:
  "gravityDB_finalize_client_statements cid st = Inr st' \<Longrightarrow>
   main_process st' = main_process st \<and> this_process st' = this_process st"
  by (auto simp: gravityDB_finalize_client_statements_def Let_def split: option.splits if_splits)

lemma finalize_clients_pids:
  "finalize_clients cids st = Inr st' \<Longrightarrow>
   main_process st' = main_process st \<and> this_process st' = this_process st"
proof (induction cids arbitrary: st)
  case Nil
  then show ?case by simp
next
  case (Cons cid cids)
  then show ?case
    by (auto split: sum.splits dest!: finalize_client_pids)
qed

lemma gravityDB_close_vectors:
  "gravityDB_opened st \<Longrightarrow> gravityDB_close e st = Inr st' \<Longrightarrow>
   whitelist_stmt st' = None \<and> gravity_stmt st' = None \<and> blacklist_stmt st' = None \<and>
   auditlist_stmt st' = None \<and> \<not> gravityDB_opened st' \<and>
   main_process st' = main_process st \<and> this_process st' = this_process st"
  by (auto simp: gravityDB_close_def Let_def split: sum.splits dest!: finalize_clients_pids)

subsection \<open>Lookups on an open store\<close>

lemma domain_in_list_opened:
  "gravityDB_opened st \<Longrightarrow>
   domain_in_list e st domain stmt =
     (if sqlite3_bind_text e stmt domain \<noteq> SQLITE_OK
      then Inr (False, emit (E_bind stmt domain) st)
      else Inr (fst (sqlite3_step e stmt (Some domain)) = SQLITE_ROW \<and>
                sqlite3_column_int (snd (sqlite3_step e stmt (Some domain))) = 1,
                reset_and_clear stmt (emit (E_step stmt) (emit (E_bind stmt domain) st))))"
  by (simp add: domain_in_list_def Let_def split: prod.splits)

lemma domain_in_list_frame:
  "gravityDB_opened st \<Longrightarrow> domain_in_list e st domain stmt = Inr (r, st') \<Longrightarrow>
   st' = st\<lparr>trace := trace st'\<rparr>"
  by (auto simp: domain_in_list_opened reset_and_clear_def emit_def split: if_splits)

lemma domain_in_list_healthy:
  assumes "gravityDB_opened st" "bind_rc e (Stmt c (Q_exists table groups)) domain = SQLITE_OK"
    and "step_fault e (Stmt c (Q_exists table groups)) = None"
  shows "domain_in_list e st domain (Some (Stmt c (Q_exists table groups))) =
           Inr (exactly_listed (db e) table groups domain,
                st\<lparr>trace := trace st @ lookup_events (Stmt c (Q_exists table groups)) domain\<rparr>)"
  using assms
  by (simp add: domain_in_list_opened sqlite3_bind_text_def run_query_exists
        sqlite3_column_int_def reset_and_clear_def emit_def lookup_events_def
        del: run_query.simps)


subsection \<open>Group resolution and statement preparation on an open store\<close>



lemma get_client_groupids_assoc_frame:
  "gravityDB_opened st \<Longrightarrow> get_client_groupids_assoc e st ip = (g, st1) \<Longrightarrow>
   st1 = st\<lparr>table_stmt := table_stmt st1, trace := trace st1\<rparr>"
  by (auto simp: get_client_groupids_assoc_def Let_def emit_def
        split: prod.splits if_splits option.splits)

lemma get_client_groupids_frame:
  "gravityDB_opened st \<Longrightarrow> get_client_groupids e st client = Inr (g, st1) \<Longrightarrow>
   st1 = st\<lparr>table_stmt := table_stmt st1, trace := trace st1\<rparr>"
  by (auto simp: get_client_groupids_def Let_def emit_def
        split: prod.splits if_splits dest!: get_client_groupids_assoc_frame [rotated])

lemma prepare_client_statements_ok:
  assumes "gravityDB_opened st"
    and "get_client_groupids e st client = Inr (Some groups, st1)"
    and "gravityDB_opened st1" "gravity_db st1 = Some c"
    and "whitelist_stmt st1 = Some wv" "gravity_stmt st1 = Some gv" "blacklist_stmt st1 = Some bv"
    and "exists_queries_ok e groups"
  shows "gravityDB_prepare_client_statements e st clientID client =
           Inr (True,
                st1\<lparr>whitelist_stmt :=
                      Some (vec_set wv clientID (Some (Stmt c (Q_exists ''vw_whitelist'' groups)))),
                    gravity_stmt :=
                      Some (vec_set gv clientID (Some (Stmt c (Q_exists ''vw_gravity'' groups)))),
                    blacklist_stmt :=
                      Some (vec_set bv clientID (Some (Stmt c (Q_exists ''vw_blacklist'' groups)))),
                    trace := trace st1 @
                      [E_prepare (Some c) (Some (Q_exists ''vw_whitelist'' groups)),
                       E_prepare (Some c) (Some (Q_exists ''vw_gravity'' groups)),
                       E_prepare (Some c) (Some (Q_exists ''vw_blacklist'' groups))]\<rparr>)"
  using assms
  by (simp add: gravityDB_prepare_client_statements_def exists_queries_ok_def
        get_client_querystr_def Let_def emit_def)

lemma prepare_from_fresh:
  assumes "fresh e st clientID c"
    and "get_client_groupids e st client = Inr (Some groups, st1)"
    and "exists_queries_ok e groups"
  shows "\<exists>st2. gravityDB_prepare_client_statements e st clientID client = Inr (True, st2) \<and>
           ready e st2 clientID c groups"
proof -
  from assms(1) obtain wv gv bv where
    v: "whitelist_stmt st = Some wv" "gravity_stmt st = Some gv" "blacklist_stmt st = Some bv"
    and o: "gravityDB_opened st" "gravity_db st = Some c"
    and p: "main_process st \<noteq> 0" "this_process st = getpid e"
    by (auto simp: fresh_def unprepared_def slot_empty_def split: option.splits)
  from get_client_groupids_frame [OF o(1) assms(2)]
  obtain ts t where st1: "st1 = st\<lparr>table_stmt := ts, trace := t\<rparr>" by blast
  have "gravityDB_opened st1" "gravity_db st1 = Some c" "whitelist_stmt st1 = Some wv"
    "gravity_stmt st1 = Some gv" "blacklist_stmt st1 = Some bv"
    using o v by (simp_all add: st1)
  from prepare_client_statements_ok [OF o(1) assms(2) this assms(3), of clientID]
  show ?thesis
    using p o by (simp add: ready_def holds_statements_def slot_holds_def st1)
qed



lemma in_whitelist_cached:
  assumes "ready e st clientID c groups"
  shows "in_whitelist e st domain clientID client =
           whitelist_or_regex e st domain clientID (Some (Stmt c (Q_exists ''vw_whitelist'' groups)))"
  using assms
  by (auto simp: ready_def holds_statements_def slot_holds_def in_whitelist_def check_fork_same
        split: option.splits)

lemma first_call:
  assumes "fresh e st clientID c"
    and "gravityDB_prepare_client_statements e st clientID client = Inr (True, st2)"
    and "ready e st2 clientID c groups"
  shows "in_gravity e st domain clientID client =
           domain_in_list e st2 domain (Some (Stmt c (Q_exists ''vw_whitelist'' groups)))"
    and "in_blacklist e st domain clientID client =
           domain_in_list e st2 domain (Some (Stmt c (Q_exists ''vw_whitelist'' groups)))"
    and "in_whitelist e st domain clientID client =
           whitelist_or_regex e st2 domain clientID (Some (Stmt c (Q_exists ''vw_whitelist'' groups)))"
  using assms
  by (auto simp: in_gravity_def in_blacklist_def in_whitelist_def check_fork_same fresh_def
        unprepared_def slot_empty_def ready_def holds_statements_def slot_holds_def
        split: option.splits)

lemma whitelist_or_regex_healthy:
  assumes "gravityDB_opened st"
    and "bind_rc e (Stmt c (Q_exists ''vw_whitelist'' groups)) domain = SQLITE_OK"
    and "step_fault e (Stmt c (Q_exists ''vw_whitelist'' groups)) = None"
  shows "whitelist_or_regex e st domain clientID (Some (Stmt c (Q_exists ''vw_whitelist'' groups)))
         = whitelist_outcome e st c groups domain clientID"
  using assms
  by (simp add: whitelist_or_regex_def domain_in_list_healthy whitelist_outcome_def emit_def)


lemma in_auditlist_single_pattern:
  assumes "main_process st \<noteq> 0" "this_process st = getpid e" "gravityDB_opened st"
    and "auditlist_stmt st = Some (Stmt c Q_audit)"
    and "bind_rc e (Stmt c Q_audit) domain = SQLITE_OK"
    and "step_fault e (Stmt c Q_audit) = None"
    and "tbl_domain_audit (db e) = [pattern]"
  shows "returned (in_auditlist e st domain) = Inr (audit_matcher pattern domain = pattern)"
  using assms
  by (simp add: in_auditlist_def check_fork_same domain_in_list_opened sqlite3_bind_text_def
        sqlite3_column_int_def returned_def)



text \<open>
  A first \<^verbatim>\<open>gravityDB_open\<close> whose \<^verbatim>\<open>PRAGMA\<close> fails calls \<^verbatim>\<open>gravityDB_close\<close> before
  the vectors are allocated: with one known client the loop of \<^verbatim>\<open>gravityDB_close\<close>
  reads through the NULL vector pointer.
\<close>

lemma gravityDB_open_failed_pragma:
  "gravityDB_open (env_ok\<lparr>exec_rc := SQLITE_ERROR\<rparr>) initial_state = Inl NullDeref"
  by code_simp

section \<open>The claims on the gravity database routines\<close>

subsection \<open>C1: the first lookup of a client in gravity and in the blacklist\<close>

text \<open>
  C1 (code defect). The claim: \<^verbatim>\<open>in_gravity\<close> and \<^verbatim>\<open>in_blacklist\<close> look the domain up
  in the statement of their own list, also on the first call for a client, when the
  statements are prepared inside the call. In the code, after the preparation both
  functions fetch the statement from \<^verbatim>\<open>whitelist_stmt\<close>. In the example store
  \<open>ads.example\<close> is in gravity and \<open>bad.example\<close> in the blacklist, both for group 0,
  and \<open>good.example\<close> is in the whitelist only. The first call for the client answers
  false for \<open>ads.example\<close> and \<open>bad.example\<close> and true for \<open>good.example\<close>; once
  the statements are cached, the same questions get the answers of the right list.
\<close>

theorem in_gravity_first_call_reads_whitelist:
  "exactly_listed db_example ''vw_gravity'' ''0'' ''ads.example'' \<and>
   returned (in_gravity env_ok state_open ''ads.example'' 0 client_unmatched) = Inr False \<and>
   returned (in_gravity env_ok (state_prepared ''0'') ''ads.example'' 0 client_unmatched) = Inr True \<and>
   \<not> exactly_listed db_example ''vw_gravity'' ''0'' ''good.example'' \<and>
   returned (in_gravity env_ok state_open ''good.example'' 0 client_unmatched) = Inr True \<and>
   exactly_listed db_example ''vw_blacklist'' ''0'' ''bad.example'' \<and>
   returned (in_blacklist env_ok state_open ''bad.example'' 0 client_unmatched) = Inr False \<and>
   returned (in_blacklist env_ok (state_prepared ''0'') ''bad.example'' 0 client_unmatched) = Inr True"
  by code_simp

subsection \<open>C3: the fork check\<close>

text \<open>
  C3 (code defect). The claim: the fork check runs at the start of every public entry
  point that uses the cached connection, \<^verbatim>\<open>gravityDB_count\<close> included, and after a
  fork the inherited connection and vectors are dropped without being finalized.
  The store \<open>state_open\<close> was opened by process 1; \<open>env_child\<close> is process 2.
  There \<^verbatim>\<open>gravityDB_getTable\<close> drops the inherited handles (no finalize or close
  event), opens a connection of process 2 and prepares on it, whereas
  \<^verbatim>\<open>gravityDB_count\<close> prepares, steps and finalizes on the connection of process 1
  and leaves \<open>this_process\<close> unchanged: it has no fork check.
\<close>

theorem gravityDB_count_skips_fork_check:
  "this_process state_open \<noteq> getpid env_child \<and>
   gravityDB_count DB_FAILED env_child state_open GRAVITY_TABLE =
     Inr (1, state_open\<lparr>trace :=
               [E_prepare (Some (Conn 1)) (Some Q_gravity_count),
                E_step (Some (Stmt (Conn 1) Q_gravity_count)),
                E_finalize (Some (Stmt (Conn 1) Q_gravity_count))]\<rparr>) \<and>
   gravityDB_getTable env_child state_open GRAVITY_TABLE =
     Inr (True,
          \<lparr>whitelist_stmt = Some [None], gravity_stmt = Some [None], blacklist_stmt = Some [None],
           gravity_db = Some (Conn 2),
           table_stmt = Some (Stmt (Conn 2) (Q_table ''vw_gravity'')),
           auditlist_stmt = Some (Stmt (Conn 2) Q_audit), gravityDB_opened = True,
           main_process = 1, this_process = 2,
           trace = [E_open 2, E_exec (Conn 2), E_prepare (Some (Conn 2)) (Some Q_audit),
                    E_busy_timeout (Conn 2), E_busy_timeout (Conn 2),
                    E_prepare (Some (Conn 2)) (Some (Q_table ''vw_gravity''))]\<rparr>)"
  by code_simp

subsection \<open>C4: the lookup primitive\<close>

text \<open>
  With a failing \<^verbatim>\<open>sqlite3_bind_text\<close> the lookup returns false, and the bind is the
  only call into SQLite: the statement is neither reset nor are its bindings cleared.
\<close>

theorem domain_in_list_failed_bind_counterexample:
  "domain_in_list env_bind_fails state_open ''example.com''
     (Some (Stmt (Conn 1) (Q_exists ''vw_gravity'' ''0''))) =
   Inr (False,
        state_open\<lparr>trace :=
          [E_bind (Some (Stmt (Conn 1) (Q_exists ''vw_gravity'' ''0''))) ''example.com'']\<rparr>)"
  by code_simp

text \<open>
  C4 (amended). \<open>st1\<close> is the store the lookup works on. When the store is not open
  and \<^verbatim>\<open>gravityDB_open\<close> returns false, leaving \<open>st1\<close>, \<^verbatim>\<open>domain_in_list\<close> returns
  false without any call on the statement. When the store is open already
  (\<open>st1 = st\<close>) or \<^verbatim>\<open>gravityDB_open\<close> opens it inside the call, a failed bind returns
  false after the bind alone; and when the bind succeeds, the calls on the statement
  are exactly bind, step, reset and clear-bindings, in this order, whatever the step
  gives: the result is false on a busy step and on every other step that is not a row,
  and on a row it tells whether the existence flag is 1. When \<^verbatim>\<open>gravityDB_open\<close> does
  not return, because the \<^verbatim>\<open>gravityDB_close\<close> of its failure path reads a statement
  vector that is still NULL, \<^verbatim>\<open>domain_in_list\<close> does not return either.
\<close>

theorem domain_in_list_discipline:
  "(\<not> gravityDB_opened st \<and> gravityDB_open e st = Inr (False, st1) \<longrightarrow>
      domain_in_list e st domain (Some s) = Inr (False, st1)) \<and>
   ((gravityDB_opened st \<and> st1 = st) \<or>
    (\<not> gravityDB_opened st \<and> gravityDB_open e st = Inr (True, st1)) \<longrightarrow>
      (bind_rc e s domain \<noteq> SQLITE_OK \<longrightarrow>
         domain_in_list e st domain (Some s) =
           Inr (False, st1\<lparr>trace := trace st1 @ [E_bind (Some s) domain]\<rparr>)) \<and>
      (bind_rc e s domain = SQLITE_OK \<longrightarrow>
         (\<exists>found. domain_in_list e st domain (Some s) =
                    Inr (found, st1\<lparr>trace := trace st1 @ lookup_events s domain\<rparr>) \<and>
            (fst (sqlite3_step e (Some s) (Some domain)) = SQLITE_BUSY \<longrightarrow> \<not> found) \<and>
            (fst (sqlite3_step e (Some s) (Some domain)) \<noteq> SQLITE_ROW \<longrightarrow> \<not> found) \<and>
            (fst (sqlite3_step e (Some s) (Some domain)) = SQLITE_ROW \<longrightarrow>
               found = (sqlite3_column_int (snd (sqlite3_step e (Some s) (Some domain))) = 1))))) \<and>
   (\<not> gravityDB_opened st \<and> gravityDB_open e st = Inl err \<longrightarrow>
      domain_in_list e st domain (Some s) = Inl err)"
  by (auto simp: domain_in_list_def opened_or_open_def sqlite3_bind_text_def reset_and_clear_def
        emit_def lookup_events_def Let_def split: prod.splits)

theorem domain_in_list_discipline_witness:
  "gravityDB_open env_missing initial_state = Inr (False, initial_state) \<and>
   domain_in_list env_missing initial_state ''ads.example'' (Some stmt_gravity0) =
     Inr (False, initial_state) \<and>
   gravityDB_open env_open_fails initial_state = Inr (False, state_open_failed) \<and>
   domain_in_list env_open_fails initial_state ''ads.example'' (Some stmt_gravity0) =
     Inr (False, state_open_failed) \<and>
   gravityDB_open env_ok initial_state = Inr (True, state_first_opened) \<and>
   domain_in_list env_ok initial_state ''ads.example'' (Some stmt_gravity0) =
     Inr (True, state_first_opened
            \<lparr>trace := trace state_first_opened @ lookup_events stmt_gravity0 ''ads.example''\<rparr>) \<and>
   domain_in_list env_bind_fails state_open ''ads.example'' (Some stmt_gravity0) =
     Inr (False, state_open\<lparr>trace := trace state_open @ [E_bind (Some stmt_gravity0) ''ads.example'']\<rparr>) \<and>
   domain_in_list env_busy state_open ''ads.example'' (Some stmt_gravity0) =
     Inr (False, state_open\<lparr>trace := trace state_open @ lookup_events stmt_gravity0 ''ads.example''\<rparr>) \<and>
   domain_in_list env_ok state_open ''ads.example'' (Some stmt_gravity0) =
     Inr (True, state_open\<lparr>trace := trace state_open @ lookup_events stmt_gravity0 ''ads.example''\<rparr>) \<and>
   gravityDB_open env_pragma_fails initial_state = Inl NullDeref \<and>
   domain_in_list env_pragma_fails initial_state ''ads.example'' (Some stmt_gravity0) = Inl NullDeref"
proof -
  have n: "\<not> gravityDB_opened initial_state"
    by (simp add: initial_state_def)
  have a: "gravityDB_open env_missing initial_state = Inr (False, initial_state)"
    "gravityDB_open env_open_fails initial_state = Inr (False, state_open_failed)"
    "gravityDB_open env_ok initial_state = Inr (True, state_first_opened)"
    "gravityDB_open env_pragma_fails initial_state = Inl NullDeref"
    by code_simp+
  have o: "gravityDB_opened state_open"
    by (simp add: state_open_def)
  have b: "bind_rc env_bind_fails stmt_gravity0 ''ads.example'' \<noteq> SQLITE_OK"
    by (simp add: env_bind_fails_def env_ok_def)
  have c: "bind_rc env_busy stmt_gravity0 ''ads.example'' = SQLITE_OK"
    "fst (sqlite3_step env_busy (Some stmt_gravity0) (Some ''ads.example'')) = SQLITE_BUSY"
    by (simp_all add: env_busy_def env_ok_def sqlite3_step_def stmt_gravity0_def)
  have d: "bind_rc env_ok stmt_gravity0 ''ads.example'' = SQLITE_OK"
    "fst (sqlite3_step env_ok (Some stmt_gravity0) (Some ''ads.example'')) = SQLITE_ROW"
    "sqlite3_column_int (snd (sqlite3_step env_ok (Some stmt_gravity0) (Some ''ads.example''))) = 1"
    by (simp add: env_ok_def) code_simp+
  from domain_in_list_discipline
         [of initial_state env_missing initial_state "''ads.example''" stmt_gravity0] n a(1)
  have 1: "domain_in_list env_missing initial_state ''ads.example'' (Some stmt_gravity0) =
     Inr (False, initial_state)" by blast
  from domain_in_list_discipline
         [of initial_state env_open_fails state_open_failed "''ads.example''" stmt_gravity0] n a(2)
  have 2: "domain_in_list env_open_fails initial_state ''ads.example'' (Some stmt_gravity0) =
     Inr (False, state_open_failed)" by blast
  from domain_in_list_discipline
         [of initial_state env_ok state_first_opened "''ads.example''" stmt_gravity0] n a(3) d
  have 3: "domain_in_list env_ok initial_state ''ads.example'' (Some stmt_gravity0) =
     Inr (True, state_first_opened
            \<lparr>trace := trace state_first_opened @ lookup_events stmt_gravity0 ''ads.example''\<rparr>)"
    by auto
  from domain_in_list_discipline
         [of state_open env_bind_fails state_open "''ads.example''" stmt_gravity0] o b
  have 4: "domain_in_list env_bind_fails state_open ''ads.example'' (Some stmt_gravity0) =
     Inr (False, state_open\<lparr>trace := trace state_open @ [E_bind (Some stmt_gravity0) ''ads.example'']\<rparr>)"
    by blast
  from domain_in_list_discipline
         [of state_open env_busy state_open "''ads.example''" stmt_gravity0] o c
  have 5: "domain_in_list env_busy state_open ''ads.example'' (Some stmt_gravity0) =
     Inr (False, state_open\<lparr>trace := trace state_open @ lookup_events stmt_gravity0 ''ads.example''\<rparr>)"
    by auto
  from domain_in_list_discipline
         [of state_open env_ok state_open "''ads.example''" stmt_gravity0] o d
  have 6: "domain_in_list env_ok state_open ''ads.example'' (Some stmt_gravity0) =
     Inr (True, state_open\<lparr>trace := trace state_open @ lookup_events stmt_gravity0 ''ads.example''\<rparr>)"
    by auto
  from domain_in_list_discipline
         [of initial_state env_pragma_fails _ "''ads.example''" stmt_gravity0 NullDeref] n a(4)
  have 7: "domain_in_list env_pragma_fails initial_state ''ads.example'' (Some stmt_gravity0) =
     Inl NullDeref" by blast
  from a 1 2 3 4 5 6 7 show ?thesis by blast
qed

subsection \<open>C5: the count of an unknown list\<close>

text \<open>
  C5 (code defect). The claim: \<^verbatim>\<open>gravityDB_count\<close> returns a count read from the
  database or the failure value \<open>DB_FAILED\<close>, also for a list index that is not
  known. In the code, on an open store every list index from \<open>UNKNOWN_TABLE\<close> on
  takes the branch \<^verbatim>\<open>return false\<close>: the result is the integer 0, no query is made and
  the state is unchanged.
\<close>

theorem gravityDB_count_unknown_list:
  assumes "gravityDB_opened st" "UNKNOWN_TABLE \<le> list"
  shows "gravityDB_count DB_FAILED e st list = Inr (0, st)"
  using assms by (simp add: gravityDB_count_def)

theorem gravityDB_count_unknown_list_witness:
  "gravityDB_opened state_open \<and> UNKNOWN_TABLE \<le> 5 \<and>
   gravityDB_count (- 2) env_ok state_open 5 = Inr (0, state_open)"
proof -
  have o: "gravityDB_opened state_open" by (simp add: state_open_def)
  have u: "UNKNOWN_TABLE \<le> 5" by (simp add: UNKNOWN_TABLE_def)
  from gravityDB_count_unknown_list [OF o u] o u show ?thesis by simp
qed

subsection \<open>C6: membership after the store was closed\<close>

text \<open>
  C6 (code defect). The claim: no operation ends the process; a membership predicate
  called after \<^verbatim>\<open>gravityDB_close\<close> has freed the statement vectors returns false.
  In the code \<^verbatim>\<open>gravityDB_close\<close> sets the three vector pointers to NULL; in the same
  process the fork check does not reopen the store, and \<^verbatim>\<open>in_whitelist\<close>,
  \<^verbatim>\<open>in_gravity\<close> and \<^verbatim>\<open>in_blacklist\<close> then read their statement through the NULL
  pointer.
\<close>

theorem membership_after_close_crashes:
  assumes "gravityDB_opened st"
    and "main_process st = 0 \<or> this_process st = getpid e"
    and "gravityDB_close e st = Inr st'"
  shows "in_whitelist e st' domain clientID client = Inl NullDeref \<and>
         in_gravity e st' domain clientID client = Inl NullDeref \<and>
         in_blacklist e st' domain clientID client = Inl NullDeref"
proof -
  from gravityDB_close_vectors [OF assms(1,3)]
  have v: "whitelist_stmt st' = None" "gravity_stmt st' = None" "blacklist_stmt st' = None"
    and p: "main_process st' = main_process st" "this_process st' = this_process st"
    by simp_all
  from assms(2) p have "main_process st' = 0 \<or> this_process st' = getpid e" by simp
  from check_fork_no_fork [OF this] obtain st0 where
    "gravityDB_check_fork e st' = Inr st0" "whitelist_stmt st0 = None"
    "gravity_stmt st0 = None" "blacklist_stmt st0 = None"
    using v by auto
  then show ?thesis
    by (simp add: in_whitelist_def in_gravity_def in_blacklist_def)
qed

theorem membership_after_close_crashes_witness:
  "gravityDB_opened state_open \<and> this_process state_open = getpid env_ok \<and>
   gravityDB_close env_ok state_open = Inr state_closed \<and>
   in_whitelist env_ok state_closed ''example.com'' 0 client_unmatched = Inl NullDeref \<and>
   in_gravity env_ok state_closed ''example.com'' 0 client_unmatched = Inl NullDeref \<and>
   in_blacklist env_ok state_closed ''example.com'' 0 client_unmatched = Inl NullDeref"
proof -
  have o: "gravityDB_opened state_open"
    and p: "main_process state_open = 0 \<or> this_process state_open = getpid env_ok"
    by (simp_all add: state_open_def env_ok_def)
  have c: "gravityDB_close env_ok state_open = Inr state_closed" by code_simp
  from membership_after_close_crashes [OF o p c] o p c show ?thesis
    by (simp add: state_open_def env_ok_def)
qed

subsection \<open>C7: whitelist or regex\<close>

text \<open>
  A busy database: \<open>good.example\<close> is exactly listed in the whitelist for group 0 and
  \<^verbatim>\<open>in_whitelist\<close> returns false.
\<close>

theorem in_whitelist_busy_counterexample:
  "exactly_listed db_example ''vw_whitelist'' ''0'' ''good.example'' \<and>
   returned (in_whitelist env_busy (state_prepared ''0'') ''good.example'' 0 client_unmatched)
     = Inr False"
  by code_simp

text \<open>
  C7 (amended). Provided the bind and the step of the client's whitelist statement
  succeed, \<^verbatim>\<open>in_whitelist\<close> returns true if and only if the domain is exactly listed
  in the whitelist for the client's groups or a whitelist regex matches, and the regex
  subsystem is called only when the exact lookup has returned false. This holds with
  the statement already cached, and on the first call of a client on an open store when
  the groups are resolved and the three statements can be prepared.
\<close>

theorem in_whitelist_exact_or_regex:
  assumes "bind_rc e (Stmt c (Q_exists ''vw_whitelist'' groups)) domain = SQLITE_OK"
    and "step_fault e (Stmt c (Q_exists ''vw_whitelist'' groups)) = None"
  shows "(ready e st clientID c groups \<longrightarrow>
            in_whitelist e st domain clientID client =
              whitelist_outcome e st c groups domain clientID) \<and>
         (fresh e st clientID c \<and> exists_queries_ok e groups \<and>
          returned (get_client_groupids e st client) = Inr (Some groups) \<longrightarrow>
            (\<exists>st2. gravityDB_prepare_client_statements e st clientID client = Inr (True, st2) \<and>
               in_whitelist e st domain clientID client =
                 whitelist_outcome e st2 c groups domain clientID))"
proof (intro conjI impI)
  assume r: "ready e st clientID c groups"
  then have "gravityDB_opened st" by (simp add: ready_def)
  from whitelist_or_regex_healthy [OF this assms] in_whitelist_cached [OF r]
  show "in_whitelist e st domain clientID client = whitelist_outcome e st c groups domain clientID"
    by simp
next
  assume f: "fresh e st clientID c \<and> exists_queries_ok e groups \<and>
             returned (get_client_groupids e st client) = Inr (Some groups)"
  then obtain st1 where g: "get_client_groupids e st client = Inr (Some groups, st1)"
    by (auto simp: returned_def split: sum.splits)
  from f prepare_from_fresh [OF _ g] obtain st2 where
    p: "gravityDB_prepare_client_statements e st clientID client = Inr (True, st2)"
    and r: "ready e st2 clientID c groups" by blast
  from r have "gravityDB_opened st2" by (simp add: ready_def)
  from whitelist_or_regex_healthy [OF this assms] first_call(3) [OF _ p r] f p
  show "\<exists>st2. gravityDB_prepare_client_statements e st clientID client = Inr (True, st2) \<and>
          in_whitelist e st domain clientID client = whitelist_outcome e st2 c groups domain clientID"
    by simp
qed

theorem in_whitelist_exact_or_regex_witness:
  "ready env_ok (state_prepared ''0'') 0 (Conn 1) ''0'' \<and>
   returned (in_whitelist env_ok (state_prepared ''0'') ''good.example'' 0 client_unmatched)
     = Inr True \<and>
   fresh env_ok state_open 0 (Conn 1) \<and>
   returned (get_client_groupids env_ok state_open client_unmatched) = Inr (Some ''0'') \<and>
   returned (in_whitelist env_ok state_open ''ads.example'' 0 client_unmatched) = Inr False"
proof -
  have ok: "bind_rc env_ok (Stmt (Conn 1) (Q_exists ''vw_whitelist'' ''0'')) d = SQLITE_OK"
    "step_fault env_ok (Stmt (Conn 1) (Q_exists ''vw_whitelist'' ''0'')) = None" for d
    by (simp_all add: env_ok_def)
  have r: "ready env_ok (state_prepared ''0'') 0 (Conn 1) ''0''"
    by (simp add: ready_def holds_statements_def slot_holds_def state_prepared_def state_open_def
          env_ok_def vec_get_def)
  have f: "fresh env_ok state_open 0 (Conn 1)"
    by (simp add: fresh_def unprepared_def slot_empty_def state_open_def env_ok_def vec_get_def)
  have q: "exists_queries_ok env_ok ''0''"
    by (simp add: exists_queries_ok_def env_ok_def)
  have g: "returned (get_client_groupids env_ok state_open client_unmatched) = Inr (Some ''0'')"
    by code_simp
  have l: "exactly_listed (db env_ok) ''vw_whitelist'' ''0'' ''good.example''"
    "\<not> exactly_listed (db env_ok) ''vw_whitelist'' ''0'' ''ads.example''"
    "match_regex env_ok ''ads.example'' 0 REGEX_WHITELIST = - 1"
    by code_simp+
  from in_whitelist_exact_or_regex [of env_ok "Conn 1" "''0''" "''good.example''" "state_prepared ''0''" 0 client_unmatched, OF ok] r l
  have 1: "returned (in_whitelist env_ok (state_prepared ''0'') ''good.example'' 0 client_unmatched)
     = Inr True"
    by (simp add: whitelist_outcome_def returned_def)
  from in_whitelist_exact_or_regex [of env_ok "Conn 1" "''0''" "''ads.example''" state_open 0 client_unmatched, OF ok] f q g l
  have 2: "returned (in_whitelist env_ok state_open ''ads.example'' 0 client_unmatched) = Inr False"
    by (auto simp: whitelist_outcome_def returned_def)
  from r 1 f g 2 show ?thesis by blast
qed

subsection \<open>C8: group resolution\<close>




subsection \<open>C9: the audit list\<close>

text \<open>
  C9. \<open>E pattern\<close> is any family of environments of the process that opened the
  store, without bind or step fault on the audit statement, whose audit table holds the
  single pattern. Then \<^verbatim>\<open>in_auditlist\<close> returns true for \<open>mail.google.de\<close> and false
  for \<open>google.de\<close> with the pattern \<open>*.google.de\<close>, false for \<open>abcgoogle.de\<close> with
  the pattern \<open>google.de\<close>, and true for \<open>abcgoogle.de\<close> with the pattern
  \<open>*google.de\<close>.
\<close>

theorem in_auditlist_wildcard_forms:
  assumes "main_process st \<noteq> 0" "gravityDB_opened st"
    and "auditlist_stmt st = Some (Stmt c Q_audit)"
    and "\<And>pattern. this_process st = getpid (E pattern) \<and>
           (\<forall>domain. bind_rc (E pattern) (Stmt c Q_audit) domain = SQLITE_OK) \<and>
           step_fault (E pattern) (Stmt c Q_audit) = None \<and>
           tbl_domain_audit (db (E pattern)) = [pattern]"
  shows "returned (in_auditlist (E ''*.google.de'') st ''mail.google.de'') = Inr True \<and>
         returned (in_auditlist (E ''*.google.de'') st ''google.de'') = Inr False \<and>
         returned (in_auditlist (E ''google.de'') st ''abcgoogle.de'') = Inr False \<and>
         returned (in_auditlist (E ''*google.de'') st ''abcgoogle.de'') = Inr True"
proof -
  have p: "returned (in_auditlist (E pattern) st domain) = Inr (audit_matcher pattern domain = pattern)"
    for pattern domain
    using in_auditlist_single_pattern [of st "E pattern" c domain pattern] assms by simp
  show ?thesis
    by (simp add: p audit_matcher_def sql_substr_def)
qed

theorem in_auditlist_wildcard_forms_witness:
  "main_process state_open \<noteq> 0 \<and> gravityDB_opened state_open \<and>
   auditlist_stmt state_open = Some (Stmt (Conn 1) Q_audit) \<and>
   tbl_domain_audit (db (env_audit ''*.google.de'')) = [''*.google.de''] \<and>
   returned (in_auditlist (env_audit ''*.google.de'') state_open ''mail.google.de'') = Inr True \<and>
   returned (in_auditlist (env_audit ''*.google.de'') state_open ''google.de'') = Inr False \<and>
   returned (in_auditlist (env_audit ''google.de'') state_open ''abcgoogle.de'') = Inr False \<and>
   returned (in_auditlist (env_audit ''*google.de'') state_open ''abcgoogle.de'') = Inr True"
proof -
  have s: "main_process state_open \<noteq> 0" "gravityDB_opened state_open"
    "auditlist_stmt state_open = Some (Stmt (Conn 1) Q_audit)"
    by (simp_all add: state_open_def)
  have e: "this_process state_open = getpid (env_audit pattern) \<and>
           (\<forall>domain. bind_rc (env_audit pattern) (Stmt (Conn 1) Q_audit) domain = SQLITE_OK) \<and>
           step_fault (env_audit pattern) (Stmt (Conn 1) Q_audit) = None \<and>
           tbl_domain_audit (db (env_audit pattern)) = [pattern]" for pattern
    by (simp add: state_open_def env_audit_def env_ok_def)
  from in_auditlist_wildcard_forms [of state_open "Conn 1" env_audit, OF s e] s e
  show ?thesis by simp
qed

end
